theory Spec2Isabelle
  imports Main
begin

section \<open>Efeito.py: extraction of the EFEITO sheet of PCAT workbooks, consolidated by year\<close>

text \<open>
  The script reads a fixed rectangle of one worksheet from each configured workbook, tags
  the table with its origin, files it under a year found in the file's path, and writes one
  sheet per year into a single workbook.  The embedding follows \<^verbatim>\<open>src/Efeito.py\<close> method by
  method.  Python strings are lists of characters, one \<^typ>\<open>char\<close> per code point (every
  character of the source is below 256); Python integers are \<^typ>\<open>int\<close>.
\<close>

subsection \<open>Strings: \<^verbatim>\<open>str(year)\<close> and \<^verbatim>\<open>sub in s\<close>\<close>

definition digit_char :: "nat \<Rightarrow> char" where
  "digit_char d = char_of (48 + d)"

function str_nat :: "nat \<Rightarrow> string" where
  "str_nat n = (if n < 10 then [digit_char n] else str_nat (n div 10) @ [digit_char (n mod 10)])"
  by pat_completeness auto
termination
  by (relation "measure id") auto

declare str_nat.simps [simp del]

text \<open>Python's \<^verbatim>\<open>str\<close> on an integer: decimal digits, a leading minus sign when negative.\<close>

definition str_int :: "int \<Rightarrow> string" where
  "str_int i = (if i < 0 then CHR ''-'' # str_nat (nat (- i)) else str_nat (nat i))"

fun startswith :: "string \<Rightarrow> string \<Rightarrow> bool" where
  "startswith s [] = True"
| "startswith [] (p # ps) = False"
| "startswith (c # cs) (p # ps) = (c = p \<and> startswith cs ps)"

text \<open>Python's \<^verbatim>\<open>sub in s\<close> on strings: \<open>sub\<close> occurs in \<open>s\<close> as a contiguous block.\<close>

fun str_in :: "string \<Rightarrow> string \<Rightarrow> bool" where
  "str_in sub [] = (sub = [])"
| "str_in sub (c # cs) = (startswith (c # cs) sub \<or> str_in sub cs)"

subsection \<open>Logging and exceptions\<close>

datatype level = INFO | WARNING | ERROR | CRITICAL

type_synonym log_record = "level \<times> string"

text \<open>
  An exception, as far as the script looks at it: \<^verbatim>\<open>str(e)\<close> is all it reads.  A missing
  dictionary key raises \<^verbatim>\<open>KeyError\<close>; whatever the spreadsheet library raises is an
  \<open>Exception\<close> with its message.
\<close>

datatype exn = KeyError int | Exception string

fun str_exn :: "exn \<Rightarrow> string" where
  "str_exn (KeyError k) = str_int k"
| "str_exn (Exception m) = m"

subsection \<open>Tables\<close>

datatype cell = Text string | Number int | Blank

text \<open>
  A pandas DataFrame: its columns in order, each a label with one value per row, and the
  number of rows (the length of the index, which a table with no column still has).
\<close>

record dataframe =
  columns :: "(cell \<times> cell list) list"
  index_len :: nat

text \<open>
  \<^verbatim>\<open>df.insert(loc, column, value)\<close> with a scalar value: the label must be new and the
  position within bounds, otherwise the call raises; the scalar fills every row.
\<close>

definition df_insert :: "nat \<Rightarrow> cell \<Rightarrow> cell \<Rightarrow> dataframe \<Rightarrow> exn + dataframe" where
  "df_insert loc column v df =
     (if column \<in> fst ` set (columns df) then Inl (Exception ''cannot insert, already exists'')
      else if length (columns df) < loc then Inl (Exception ''index is out of bounds'')
      else Inr (df\<lparr>columns := take loc (columns df) @ [(column, replicate (index_len df) v)]
                                  @ drop loc (columns df)\<rparr>))"

type_synonym grid = "cell list list"

text \<open>The cell of a row at a position; past the end of the row there is nothing.\<close>

definition cell_at :: "cell list \<Rightarrow> nat \<Rightarrow> cell" where
  "cell_at row j = (if j < length row then row ! j else Blank)"

text \<open>
  What \<^verbatim>\<open>df.to_excel(writer, sheet_name=..., index=False)\<close> puts on a sheet, from its
  first cell on: the row of the column labels, then one row per row of the table.
\<close>

definition to_grid :: "dataframe \<Rightarrow> grid" where
  "to_grid df =
     map fst (columns df)
       # map (\<lambda>i. map (\<lambda>(_, vs). cell_at vs i) (columns df)) [0..<index_len df]"

text \<open>
  A writer opened for writing keeps one sheet per name.  Writing under a name it already
  holds writes into that sheet: the new cells replace those they cover, the others stay.
\<close>

fun overlay :: "grid \<Rightarrow> grid \<Rightarrow> grid" where
  "overlay old [] = old"
| "overlay [] (n # ns) = n # ns"
| "overlay (r # rs) (n # ns) = (n @ drop (length n) r) # overlay rs ns"

type_synonym sheet = "string \<times> grid"

definition put_sheet :: "sheet list \<Rightarrow> string \<Rightarrow> grid \<Rightarrow> sheet list" where
  "put_sheet sh name g =
     (if name \<in> fst ` set sh
      then map (\<lambda>(n, old). if n = name then (n, overlay old g) else (n, old)) sh
      else sh @ [(name, g)])"

subsection \<open>Configuration and the extractor object\<close>

record ExtractionConfig =
  sheet_name :: string
  start_col :: string
  end_col :: string
  start_row :: int
  end_row :: int
  years :: "int list"

text \<open>\<^verbatim>\<open>__post_init__\<close>: a missing year list becomes \<^verbatim>\<open>list(range(2014, 2025))\<close>.\<close>

definition post_init :: "int list option \<Rightarrow> int list" where
  "post_init ys = (case ys of None \<Rightarrow> [2014..2024] | Some l \<Rightarrow> l)"

definition default_config :: ExtractionConfig where
  "default_config =
     \<lparr>sheet_name = ''EFEITO'', start_col = ''AI'', end_col = ''AV'',
      start_row = 1, end_row = 11, years = post_init None\<rparr>"

record extractor =
  config :: ExtractionConfig
  output_folder :: string
  files_to_process :: "(string \<times> string) list"
  data_by_year :: "int \<rightharpoonup> dataframe list"

text \<open>
  What the script does not contain: the working directory, path joining, directory
  creation and the spreadsheet library.  Each is a parameter, and each call that can raise
  yields an exception or a result.
  \<^item> \<open>makedirs paths d\<close> stands for \<^verbatim>\<open>os.makedirs(d)\<close> on a file system holding
    \<open>paths\<close>: it raises, or returns the intermediate directories it had to create.
  \<^item> \<open>open_workbook path\<close> is the workbook file read: it raises (no file, not a
    workbook), or gives the sheets by name, each a list of rows.
  \<^item> \<open>frame_of usecols header rows\<close> is how pandas builds the table from the header row
    and the data rows it has selected: it keeps the columns named by \<open>usecols\<close>, makes the
    labels from the header and converts the cells, or raises.
  \<^item> \<open>concat_ignore_index\<close> is \<^verbatim>\<open>pd.concat(..., ignore_index=True)\<close>.
  \<^item> \<open>ExcelWriter\<close>, \<open>to_excel\<close> and \<open>writer_close\<close> say whether opening the writer,
    writing one sheet after those already written, and saving on leaving the \<^verbatim>\<open>with\<close>
    block raise.
\<close>

record platform =
  getcwd :: string
  path_join :: "string \<Rightarrow> string \<Rightarrow> string"
  makedirs :: "string set \<Rightarrow> string \<Rightarrow> exn + string set"
  open_workbook :: "string \<Rightarrow> exn + (string \<rightharpoonup> grid)"
  frame_of :: "string \<Rightarrow> cell list \<Rightarrow> grid \<Rightarrow> exn + dataframe"
  concat_ignore_index :: "dataframe list \<Rightarrow> exn + dataframe"
  ExcelWriter :: "string set \<Rightarrow> string \<Rightarrow> exn option"
  to_excel :: "sheet list \<Rightarrow> dataframe \<Rightarrow> string \<Rightarrow> exn option"
  writer_close :: "sheet list \<Rightarrow> exn option"

text \<open>
  \<^verbatim>\<open>pd.read_excel(path, sheet_name=..., usecols=..., nrows=..., skiprows=...)\<close>, as the
  script calls it.  No \<^verbatim>\<open>header\<close> argument is given, so pandas uses its default: after
  the skipped rows, the first row is the header (it becomes the column labels, not
  data), and the \<open>nrows\<close> rows after it are the data.  A sheet with nothing left after the
  skipped rows gives an empty table.
\<close>

definition pd_read_excel ::
  "platform \<Rightarrow> string \<Rightarrow> string \<Rightarrow> string \<Rightarrow> int \<Rightarrow> int \<Rightarrow> exn + dataframe" where
  "pd_read_excel pf path sheet usecols nrows skiprows =
     (case open_workbook pf path of
        Inl e \<Rightarrow> Inl e
      | Inr wb \<Rightarrow>
         if nrows < 0 then Inl (Exception ''nrows must be an integer >=0'')
         else (case wb sheet of
                 None \<Rightarrow> Inl (Exception (''Worksheet named '' @ sheet @ '' not found''))
               | Some g \<Rightarrow>
                  (case drop (nat skiprows) g of
                     [] \<Rightarrow> Inr \<lparr>columns = [], index_len = 0\<rparr>
                   | header # body \<Rightarrow> frame_of pf usecols header (take (nat nrows) body))))"

text \<open>
  The state of a run: the extractor object, the paths that exist on the file system, the
  log records emitted so far, and the workbooks saved (path to sheets, in writing order).
\<close>

record state =
  self :: extractor
  fs :: "string set"
  log :: "log_record list"
  workbooks :: "string \<rightharpoonup> sheet list"

definition logging :: "level \<Rightarrow> string \<Rightarrow> state \<Rightarrow> state" where
  "logging lvl msg s = s\<lparr>log := log s @ [(lvl, msg)]\<rparr>"

subsection \<open>\<^verbatim>\<open>PCATEffectExtractor.__init__\<close>\<close>

definition bsl :: string where
  "bsl = [CHR 0x5C]"

definition pcats_dir :: string where
  "pcats_dir = ''C:'' @ bsl @ ''Users'' @ bsl @ ''Hiden Number'' @ bsl @ ''Desktop'' @ bsl
                 @ ''PCATs'' @ bsl"

definition maranhao :: "string \<Rightarrow> string" where
  "maranhao y = ''PCAT Maranh'' @ [CHR 0xE3] @ ''o '' @ y"

definition hardcoded_files :: "(string \<times> string) list" where
  "hardcoded_files =
     [(pcats_dir @ ''PCAT_Cemar_2014.xlsx'', maranhao ''2014''),
      (pcats_dir @ ''PCAT_Cemar_2015.xlsx'', maranhao ''2015''),
      (pcats_dir @ ''PCAT_Cemar_2016.xlsx'', maranhao ''2016''),
      (pcats_dir @ ''PCAT_Cemar_2017.xlsx'', maranhao ''2017''),
      (pcats_dir @ ''PCAT_Cemar_2018 .xlsx'', maranhao ''2018''),
      (pcats_dir @ ''PCAT_Cemar_2019.xlsx'', maranhao ''2019''),
      (pcats_dir @ ''PCAT_Cemar_2020 V02.xlsx'', maranhao ''2020''),
      (pcats_dir @ ''PCAT Cemar 2021 V02.xlsx'', maranhao ''2021''),
      (pcats_dir @ ''PCAT Cemar 2022 V02.xlsx'', maranhao ''2022''),
      (pcats_dir @ ''PCAT Equatorial MA 2023 V02.xlsx'', maranhao ''2023''),
      (pcats_dir @ ''PCAT Equatorial MA 2024 V02.xlsx'', maranhao ''2024''),
      (pcats_dir @ ''PCAT Equatorial MA 2025 V02.xlsx'', maranhao ''2025'')]"

text \<open>\<^verbatim>\<open>{year: [] for year in self.config.years}\<close>\<close>

definition empty_buckets :: "int list \<Rightarrow> (int \<rightharpoonup> dataframe list)" where
  "empty_buckets ys = (\<lambda>y. if y \<in> set ys then Some [] else None)"

definition PCATEffectExtractor :: "platform \<Rightarrow> ExtractionConfig \<Rightarrow> extractor" where
  "PCATEffectExtractor pf cfg =
     \<lparr>config = cfg,
      output_folder = path_join pf (getcwd pf) ''resultados_efeito'',
      files_to_process = hardcoded_files,
      data_by_year = empty_buckets (years cfg)\<rparr>"

subsection \<open>\<^verbatim>\<open>_create_output_directory\<close>\<close>

text \<open>
  \<^verbatim>\<open>os.path.exists\<close> is membership in the set of existing paths.  When the folder is
  absent \<^verbatim>\<open>os.makedirs\<close> is called; the method has no \<^verbatim>\<open>try\<close>, so an exception of
  \<^verbatim>\<open>os.makedirs\<close> leaves it, with nothing logged.
\<close>

definition create_output_directory :: "platform \<Rightarrow> state \<Rightarrow> exn option \<times> state" where
  "create_output_directory pf s =
     (let d = output_folder (self s) in
      if d \<notin> fs s
      then (case makedirs pf (fs s) d of
              Inl e \<Rightarrow> (Some e, s)
            | Inr made \<Rightarrow>
               (None, logging INFO (''Diret'' @ [CHR 0xF3] @ ''rio criado: '' @ d)
                        (s\<lparr>fs := insert d (fs s \<union> made)\<rparr>)))
      else (None, s))"

subsection \<open>\<^verbatim>\<open>extract_data_from_file\<close>\<close>

text \<open>The body of the \<^verbatim>\<open>try\<close>: the read, then the two insertions.\<close>

definition read_and_tag :: "platform \<Rightarrow> ExtractionConfig \<Rightarrow> string \<times> string \<Rightarrow> exn + dataframe" where
  "read_and_tag pf cfg file_info =
     (case file_info of (file_path, description) \<Rightarrow>
      (case pd_read_excel pf file_path (sheet_name cfg) (start_col cfg @ '':'' @ end_col cfg)
              (end_row cfg - start_row cfg + 1) (start_row cfg - 1) of
         Inl e \<Rightarrow> Inl e
       | Inr df \<Rightarrow>
          (case df_insert 0 (Text ''Arquivo_Origem'') (Text description) df of
             Inl e \<Rightarrow> Inl e
           | Inr df1 \<Rightarrow> df_insert 1 (Text ''Caminho_Arquivo'') (Text file_path) df1)))"

definition extract_data_from_file :: "platform \<Rightarrow> string \<times> string \<Rightarrow> state \<Rightarrow> dataframe option \<times> state" where
  "extract_data_from_file pf file_info s =
     (case file_info of (file_path, description) \<Rightarrow>
      (case read_and_tag pf (config (self s)) file_info of
         Inr df \<Rightarrow> (Some df, s)
       | Inl e \<Rightarrow>
          (None, logging ERROR (''Erro ao processar '' @ description @ '' ('' @ file_path
                                  @ ''): '' @ str_exn e) s)))"

subsection \<open>\<^verbatim>\<open>process_files\<close>\<close>

text \<open>
  The inner loop over the years: the first year whose decimal string occurs in the path
  receives the table, and the loop breaks.  Indexing the dictionary with a year it does not
  hold raises \<^verbatim>\<open>KeyError\<close>, which nothing in \<^verbatim>\<open>process_files\<close> catches.
\<close>

fun add_to_year :: "string \<Rightarrow> string \<Rightarrow> dataframe \<Rightarrow> int list \<Rightarrow> state \<Rightarrow> exn option \<times> state" where
  "add_to_year file_path description df [] s = (None, s)"
| "add_to_year file_path description df (year # ys) s =
     (if str_in (str_int year) file_path
      then (case data_by_year (self s) year of
              None \<Rightarrow> (Some (KeyError year), s)
            | Some bucket \<Rightarrow>
               (None, logging INFO (''Dados de '' @ description @ '' adicionados ao ano '' @ str_int year)
                        (s\<lparr>self := (self s)\<lparr>data_by_year := (data_by_year (self s))(year \<mapsto> bucket @ [df])\<rparr>\<rparr>)))
      else add_to_year file_path description df ys s)"

text \<open>The body of the loop over the files.\<close>

definition process_entry :: "platform \<Rightarrow> string \<times> string \<Rightarrow> state \<Rightarrow> exn option \<times> state" where
  "process_entry pf file_info s =
     (case file_info of (file_path, description) \<Rightarrow>
      if file_path = [] then (None, s)
      else if file_path \<notin> fs s
      then (None, logging ERROR (''Arquivo n'' @ [CHR 0xE3] @ ''o encontrado: '' @ file_path) s)
      else (case extract_data_from_file pf file_info
                   (logging INFO (''Processando arquivo: '' @ description) s) of
              (None, s') \<Rightarrow> (None, s')
            | (Some df, s') \<Rightarrow> add_to_year file_path description df (years (config (self s'))) s'))"

fun process_files_loop :: "platform \<Rightarrow> (string \<times> string) list \<Rightarrow> state \<Rightarrow> exn option \<times> state" where
  "process_files_loop pf [] s = (None, s)"
| "process_files_loop pf (file_info # rest) s =
     (case process_entry pf file_info s of
        (Some e, s') \<Rightarrow> (Some e, s')
      | (None, s') \<Rightarrow> process_files_loop pf rest s')"

definition process_files :: "platform \<Rightarrow> state \<Rightarrow> exn option \<times> state" where
  "process_files pf s = process_files_loop pf (files_to_process (self s)) s"

subsection \<open>\<^verbatim>\<open>save_consolidated_file\<close>\<close>

text \<open>
  The loop over the years inside the \<^verbatim>\<open>with\<close> block; \<open>sh\<close> are the sheets the writer
  holds so far.  The first exception ends the loop.
\<close>

fun save_loop :: "platform \<Rightarrow> int list \<Rightarrow> sheet list \<Rightarrow> state \<Rightarrow> exn option \<times> sheet list \<times> state" where
  "save_loop pf [] sh s = (None, sh, s)"
| "save_loop pf (year # ys) sh s =
     (case data_by_year (self s) year of
        None \<Rightarrow> (Some (KeyError year), sh, s)
      | Some bucket \<Rightarrow>
         if bucket \<noteq> []
         then (case concat_ignore_index pf bucket of
                 Inl e \<Rightarrow> (Some e, sh, s)
               | Inr df_year \<Rightarrow>
                  (case to_excel pf sh df_year (str_int year) of
                     Some e \<Rightarrow> (Some e, sh, s)
                   | None \<Rightarrow>
                      save_loop pf ys (put_sheet sh (str_int year) (to_grid df_year))
                        (logging INFO (''Dados do ano '' @ str_int year @ '' salvos com sucesso'') s)))
         else save_loop pf ys sh
                (logging WARNING (''Nenhum dado encontrado para o ano '' @ str_int year) s))"

text \<open>
  The \<^verbatim>\<open>with pd.ExcelWriter(...)\<close> statement.  If the writer cannot be opened nothing else
  runs.  Otherwise the file exists from then on, the loop runs, and leaving the block
  (normally or by an exception) closes the writer, which saves the sheets written so far;
  an exception raised by the close replaces the one of the block.
\<close>

definition write_workbook :: "platform \<Rightarrow> string \<Rightarrow> state \<Rightarrow> exn option \<times> state" where
  "write_workbook pf output_file s =
     (case ExcelWriter pf (fs s) output_file of
        Some e \<Rightarrow> (Some e, s)
      | None \<Rightarrow>
         (case save_loop pf (years (config (self s))) [] (s\<lparr>fs := insert output_file (fs s)\<rparr>) of
            (r, sh, s1) \<Rightarrow>
              (case writer_close pf sh of
                 Some e \<Rightarrow> (Some e, s1)
               | None \<Rightarrow> (r, s1\<lparr>workbooks := (workbooks s1)(output_file \<mapsto> sh)\<rparr>))))"

definition save_consolidated_file :: "platform \<Rightarrow> state \<Rightarrow> state" where
  "save_consolidated_file pf s =
     (let output_file = path_join pf (output_folder (self s)) ''PCAT_Efeito_Consolidado.xlsx'' in
      case write_workbook pf output_file s of
        (None, s') \<Rightarrow> logging INFO (''Arquivo consolidado salvo em: '' @ output_file) s'
      | (Some e, s') \<Rightarrow> logging ERROR (''Erro ao salvar arquivo consolidado: '' @ str_exn e) s')"

subsection \<open>\<^verbatim>\<open>run\<close> and the main block\<close>

definition success_message :: string where
  "success_message = ''Processamento conclu'' @ [CHR 0xED] @ ''do com sucesso!''"

definition run :: "platform \<Rightarrow> state \<Rightarrow> exn option \<times> state" where
  "run pf s =
     (let s0 = logging INFO ''Iniciando processamento dos arquivos PCAT'' s in
      if \<not> list_ex (\<lambda>(path, _). path \<noteq> []) (files_to_process (self s0))
      then (None, logging ERROR ''Nenhum arquivo configurado para processamento'' s0)
      else (case create_output_directory pf s0 of
              (Some e, s1) \<Rightarrow> (Some e, s1)
            | (None, s1) \<Rightarrow>
               (case process_files pf s1 of
                  (Some e, s2) \<Rightarrow> (Some e, s2)
                | (None, s2) \<Rightarrow>
                   (None, logging INFO success_message (save_consolidated_file pf s2)))))"

definition main :: "platform \<Rightarrow> string set \<Rightarrow> state" where
  "main pf fs0 =
     (case run pf \<lparr>self = PCATEffectExtractor pf default_config, fs = fs0, log = [],
                   workbooks = Map.empty\<rparr> of
        (None, s') \<Rightarrow> s'
      | (Some e, s') \<Rightarrow>
          logging CRITICAL (''Erro fatal na execu'' @ [CHR 0xE7, CHR 0xE3] @ ''o do programa: ''
                              @ str_exn e) s')"

subsection \<open>Notions used to state the properties\<close>

text \<open>Reading a decimal string back, to show that \<open>str_nat\<close> loses nothing.\<close>

definition parse_nat :: "string \<Rightarrow> nat" where
  "parse_nat cs = foldl (\<lambda>a c. 10 * a + (of_char c - 48)) 0 cs"

text \<open>The year whose decimal string is found first, in list order.\<close>

definition first_matching_year :: "string \<Rightarrow> int list \<Rightarrow> int option" where
  "first_matching_year file_path ys = find (\<lambda>y. str_in (str_int y) file_path) ys"

text \<open>
  Every configured year is a key of the dictionary: what the constructor establishes, and
  what keeps the dictionary lookups from raising.
\<close>

definition keyed :: "state \<Rightarrow> bool" where
  "keyed s = list_all (\<lambda>y. data_by_year (self s) y \<noteq> None) (years (config (self s)))"

text \<open>
  The tables one entry of the file list contributes to the bucket of year \<open>y\<close>: its table,
  if the path is set, exists, is read and tagged without an exception, and \<open>y\<close> is the
  first configured year found in the path; nothing otherwise.  \<open>tables_for\<close> collects
  them over the whole list, in list order.
\<close>

definition filed ::
  "platform \<Rightarrow> ExtractionConfig \<Rightarrow> string set \<Rightarrow> int \<Rightarrow> string \<times> string \<Rightarrow> dataframe list" where
  "filed pf cfg paths y file_info =
     (case file_info of (p, d) \<Rightarrow>
      if p \<noteq> [] \<and> p \<in> paths \<and> first_matching_year p (years cfg) = Some y
      then (case read_and_tag pf cfg (p, d) of Inl e \<Rightarrow> [] | Inr df \<Rightarrow> [df])
      else [])"

definition tables_for ::
  "platform \<Rightarrow> ExtractionConfig \<Rightarrow> string set \<Rightarrow> (string \<times> string) list \<Rightarrow> int \<Rightarrow> dataframe list" where
  "tables_for pf cfg paths files y = concat (map (filed pf cfg paths y) files)"

definition has_data :: "(int \<rightharpoonup> dataframe list) \<Rightarrow> int \<Rightarrow> bool" where
  "has_data d y = (case d y of None \<Rightarrow> False | Some bucket \<Rightarrow> bucket \<noteq> [])"

text \<open>The record the loop of \<^verbatim>\<open>save_consolidated_file\<close> logs for a year.\<close>

definition year_message :: "(int \<rightharpoonup> dataframe list) \<Rightarrow> int \<Rightarrow> log_record" where
  "year_message d y =
     (if has_data d y then (INFO, ''Dados do ano '' @ str_int y @ '' salvos com sucesso'')
      else (WARNING, ''Nenhum dado encontrado para o ano '' @ str_int y))"

text \<open>
  A sheet is the one of year \<open>y\<close>: named by its decimal string, holding what \<^verbatim>\<open>to_excel\<close>
  writes of the bucket concatenated.
\<close>

definition sheet_of_year :: "platform \<Rightarrow> (int \<rightharpoonup> dataframe list) \<Rightarrow> int \<Rightarrow> sheet \<Rightarrow> bool" where
  "sheet_of_year pf d y sh =
     (fst sh = str_int y \<and>
      (case d y of None \<Rightarrow> False
       | Some bucket \<Rightarrow>
          bucket \<noteq> [] \<and>
          (case concat_ignore_index pf bucket of
             Inl e \<Rightarrow> False
           | Inr df \<Rightarrow> snd sh = to_grid df)))"

text \<open>
  The elements of a list in the order of their first occurrence, each once; \<open>seen\<close> are
  those already met.
\<close>

fun first_seen :: "int list \<Rightarrow> int list \<Rightarrow> int list" where
  "first_seen seen [] = seen"
| "first_seen seen (y # ys) = first_seen (if y \<in> set seen then seen else seen @ [y]) ys"

definition first_occurrences :: "int list \<Rightarrow> int list" where
  "first_occurrences ys = first_seen [] ys"

definition output_path :: "platform \<Rightarrow> state \<Rightarrow> string" where
  "output_path pf s = path_join pf (output_folder (self s)) ''PCAT_Efeito_Consolidado.xlsx''"

text \<open>The sheets the writer of \<^verbatim>\<open>save_consolidated_file\<close> holds when the loop ends.\<close>

definition sheets_written :: "platform \<Rightarrow> state \<Rightarrow> sheet list" where
  "sheets_written pf s =
     fst (snd (save_loop pf (years (config (self s))) [] (s\<lparr>fs := insert (output_path pf s) (fs s)\<rparr>)))"

subsection \<open>A small platform and extractor to run the definitions on\<close>

text \<open>
  A sheet of three rows and two columns, and the table the script gets from it when the
  configured rows are row 1 alone: the labels are row 1, the one data row is row 2.
\<close>

definition ex_sheet :: grid where
  "ex_sheet = [[Text ''A'', Text ''B''], [Number 1, Number 2], [Number 3, Number 4]]"

definition ex_region :: dataframe where
  "ex_region = \<lparr>columns = [(Text ''A'', [Number 1]), (Text ''B'', [Number 2])], index_len = 1\<rparr>"

definition ex_table :: "string \<Rightarrow> string \<Rightarrow> dataframe" where
  "ex_table p d =
     \<lparr>columns = [(Text ''Arquivo_Origem'', [Text d]), (Text ''Caminho_Arquivo'', [Text p]),
                 (Text ''A'', [Number 1]), (Text ''B'', [Number 2])],
      index_len = 1\<rparr>"

text \<open>A sheet wide enough for the default columns \<open>AI:AV\<close>: rows of 48 numbered cells.\<close>

definition wide_row :: "cell list" where
  "wide_row = map (\<lambda>j. Number (int j)) [0..<48]"

definition wide_sheet :: grid where
  "wide_sheet = [wide_row, wide_row, wide_row]"

text \<open>
  Column letters as a position counted from 0 (\<open>A\<close> is 0, \<open>Z\<close> 25, \<open>AA\<close> 26), and a
  table builder that keeps the columns of a range \<open>X:Y\<close>, labelled by the header cells as
  they are.
\<close>

fun letters_num :: "nat \<Rightarrow> string \<Rightarrow> nat option" where
  "letters_num n [] = Some n"
| "letters_num n (c # cs) =
     (if 65 \<le> (of_char c :: nat) \<and> (of_char c :: nat) \<le> 90
      then letters_num (26 * n + (of_char c - 64)) cs else None)"

definition ex_col :: "string \<Rightarrow> nat option" where
  "ex_col s = (if s = [] then None else map_option (\<lambda>n. n - 1) (letters_num 0 s))"

definition ex_frame_of :: "string \<Rightarrow> cell list \<Rightarrow> grid \<Rightarrow> exn + dataframe" where
  "ex_frame_of usecols header body =
     (case (ex_col (takeWhile (\<lambda>c. c \<noteq> CHR '':'') usecols),
            ex_col (drop 1 (dropWhile (\<lambda>c. c \<noteq> CHR '':'') usecols))) of
        (Some lo, Some hi) \<Rightarrow>
          Inr \<lparr>columns = map (\<lambda>j. (cell_at header j, map (\<lambda>r. cell_at r j) body)) [lo..<Suc hi],
               index_len = length body\<rparr>
      | _ \<Rightarrow> Inl (Exception ''Invalid column name''))"

definition stack2 :: "dataframe \<Rightarrow> dataframe \<Rightarrow> dataframe" where
  "stack2 a b =
     \<lparr>columns = map (\<lambda>((l, xs), (_, ys)). (l, xs @ ys)) (zip (columns a) (columns b)),
      index_len = index_len a + index_len b\<rparr>"

definition ex_concat :: "dataframe list \<Rightarrow> exn + dataframe" where
  "ex_concat dfs =
     (case dfs of [] \<Rightarrow> Inl (Exception ''No objects to concatenate'')
      | d # ds \<Rightarrow> Inr (foldl stack2 d ds))"

definition path_2025 :: string where
  "path_2025 = pcats_dir @ ''PCAT Equatorial MA 2025 V02.xlsx''"

definition ex_platform :: platform where
  "ex_platform =
     \<lparr>getcwd = ''/work'',
      path_join = (\<lambda>a b. a @ ''/'' @ b),
      makedirs = (\<lambda>paths d. Inr {}),
      open_workbook = (\<lambda>path.
         if path = path_2025 then Inr [''EFEITO'' \<mapsto> wide_sheet]
         else if path \<in> {''a_2020.xlsx'', ''b_2020.xlsx'', ''noyear.xlsx''}
         then Inr [''EFEITO'' \<mapsto> ex_sheet]
         else if path = ''bad_2020.xlsx'' then Inr [''Plan1'' \<mapsto> ex_sheet]
         else Inl (Exception ''No such file or directory'')),
      frame_of = ex_frame_of,
      concat_ignore_index = ex_concat,
      ExcelWriter = (\<lambda>paths path.
         if ''/work/resultados_efeito'' \<in> paths then None
         else Some (Exception ''Cannot save file into a non-existent directory'')),
      to_excel = (\<lambda>sh df name. None),
      writer_close = (\<lambda>sh. if sh = [] then Some (Exception ''At least one sheet must be visible'')
                           else None)\<rparr>"

text \<open>The same platform on a file system where the folder cannot be made.\<close>

definition denied_platform :: platform where
  "denied_platform = ex_platform\<lparr>makedirs := (\<lambda>paths d. Inl (Exception ''Permission denied''))\<rparr>"

definition ex_config :: ExtractionConfig where
  "ex_config =
     default_config\<lparr>start_col := ''A'', end_col := ''B'', end_row := 1,
                    years := [2019, 2020, 2021]\<rparr>"

definition ex_files :: "(string \<times> string) list" where
  "ex_files =
     [(''a_2020.xlsx'', ''A''), ([], ''unset''), (''gone_2021.xlsx'', ''G''),
      (''bad_2020.xlsx'', ''B''), (''noyear.xlsx'', ''N''), (''b_2020.xlsx'', ''B2'')]"

definition ex_extractor :: extractor where
  "ex_extractor = (PCATEffectExtractor ex_platform ex_config)\<lparr>files_to_process := ex_files\<rparr>"

definition ex_state :: state where
  "ex_state =
     \<lparr>self = ex_extractor,
      fs = {''a_2020.xlsx'', ''bad_2020.xlsx'', ''noyear.xlsx'', ''b_2020.xlsx''},
      log = [], workbooks = Map.empty\<rparr>"

text \<open>
  The same extractor once two tables have been filed under 2020 and the output folder
  exists, with 2020 listed twice among the years.
\<close>

definition ex_filled :: state where
  "ex_filled =
     ex_state\<lparr>self := ex_extractor
                 \<lparr>config := ex_config\<lparr>years := [2019, 2020, 2021, 2020]\<rparr>,
                  data_by_year := (empty_buckets [2019, 2020, 2021])
                     (2020 \<mapsto> [ex_table ''a_2020.xlsx'' ''A'', ex_table ''b_2020.xlsx'' ''B2''])\<rparr>,
              fs := insert ''/work/resultados_efeito'' (fs ex_state)\<rparr>"

text \<open>The same extractor when its only configured file is missing.\<close>

definition ex_gone :: state where
  "ex_gone = ex_state\<lparr>self := ex_extractor\<lparr>files_to_process := [(''gone_2021.xlsx'', ''G'')]\<rparr>\<rparr>"

text \<open>That state once \<^verbatim>\<open>run\<close> has logged its start and made the output folder.\<close>

definition ex_gone_started :: state where
  "ex_gone_started =
     logging INFO (''Diret'' @ [CHR 0xF3] @ ''rio criado: /work/resultados_efeito'')
       ((logging INFO ''Iniciando processamento dos arquivos PCAT'' ex_gone)
          \<lparr>fs := insert ''/work/resultados_efeito'' (fs ex_gone)\<rparr>)"

text \<open>
  The extractor as the main block builds it, on a file system that holds the last of the
  hard-coded workbooks: the one of 2025, a year the default configuration does not list.
\<close>

definition default_state :: state where
  "default_state =
     \<lparr>self = PCATEffectExtractor ex_platform default_config, fs = {path_2025},
      log = [], workbooks = Map.empty\<rparr>"

section \<open>Properties\<close>

subsection \<open>Basic facts\<close>

lemma logging_simps [simp]:
  "self (logging l m s) = self s"
  "fs (logging l m s) = fs s"
  "workbooks (logging l m s) = workbooks s"
  "log (logging l m s) = log s @ [(l, m)]"
  by (simp_all add: logging_def)

lemma extract_data_from_file_cases:
  "extract_data_from_file pf (p, d) s =
     (case read_and_tag pf (config (self s)) (p, d) of
        Inr df \<Rightarrow> (Some df, s)
      | Inl e \<Rightarrow> (None, logging ERROR (''Erro ao processar '' @ d @ '' ('' @ p @ ''): '' @ str_exn e) s))"
  by (simp add: extract_data_from_file_def)

subsection \<open>The extraction leaves the extractor alone\<close>

text \<open>
  C10.  Whatever the file and whatever the outcome, \<^verbatim>\<open>extract_data_from_file\<close> returns
  with the extractor object as it was (\<open>config\<close>, \<open>output_folder\<close>, \<open>files_to_process\<close>
  and \<open>data_by_year\<close> are its four fields), and with the file system and the saved
  workbooks as they were; the only thing it may add is one record at the end of the log.
  The result travels in the returned value alone.
\<close>

theorem extract_data_from_file_frame:
  "self (snd (extract_data_from_file pf file_info s)) = self s
   \<and> config (self (snd (extract_data_from_file pf file_info s))) = config (self s)
   \<and> output_folder (self (snd (extract_data_from_file pf file_info s))) = output_folder (self s)
   \<and> files_to_process (self (snd (extract_data_from_file pf file_info s))) = files_to_process (self s)
   \<and> data_by_year (self (snd (extract_data_from_file pf file_info s))) = data_by_year (self s)
   \<and> fs (snd (extract_data_from_file pf file_info s)) = fs s
   \<and> workbooks (snd (extract_data_from_file pf file_info s)) = workbooks s
   \<and> (fst (extract_data_from_file pf file_info s) \<noteq> None
        \<and> snd (extract_data_from_file pf file_info s) = s
      \<or> fst (extract_data_from_file pf file_info s) = None
        \<and> (\<exists>m. snd (extract_data_from_file pf file_info s) = logging ERROR m s))"
proof (cases file_info)
  case (Pair p d)
  show ?thesis
    unfolding Pair extract_data_from_file_cases
    by (cases "read_and_tag pf (config (self s)) (p, d)") auto
qed

lemma ex_read_bad:
  "read_and_tag ex_platform (config (self ex_state)) (''bad_2020.xlsx'', ''B'')
     = Inl (Exception ''Worksheet named EFEITO not found'')"
  by (simp add: read_and_tag_def pd_read_excel_def ex_platform_def ex_state_def ex_extractor_def
      PCATEffectExtractor_def ex_config_def default_config_def path_2025_def pcats_dir_def)

theorem extract_data_from_file_frame_witness:
  "self (snd (extract_data_from_file ex_platform (''bad_2020.xlsx'', ''B'') ex_state)) = ex_extractor
   \<and> fst (extract_data_from_file ex_platform (''bad_2020.xlsx'', ''B'') ex_state) = None"
  using extract_data_from_file_frame [of ex_platform "(''bad_2020.xlsx'', ''B'')" ex_state]
  by (simp add: extract_data_from_file_cases ex_read_bad) (simp add: ex_state_def)

subsection \<open>The decimal string determines the number\<close>

lemma of_char_digit: "d < 10 \<Longrightarrow> of_char (digit_char d) = 48 + d"
  by (simp add: digit_char_def)

lemma parse_nat_str_nat: "parse_nat (str_nat n) = n"
proof (induction n rule: str_nat.induct)
  case (1 n)
  show ?case
  proof (cases "n < 10")
    case True
    then show ?thesis by (simp add: str_nat.simps[of n] parse_nat_def of_char_digit)
  next
    case False
    with 1 show ?thesis
      by (simp add: str_nat.simps[of n] parse_nat_def of_char_digit)
  qed
qed

lemma str_nat_inj: "str_nat a = str_nat b \<Longrightarrow> a = b"
  by (metis parse_nat_str_nat)

lemma digit_char_not_minus: "d < 10 \<Longrightarrow> digit_char d \<noteq> CHR ''-''"
proof
  assume "d < 10" and "digit_char d = CHR ''-''"
  then have "of_char (digit_char d) = (of_char (CHR ''-'') :: nat)" by simp
  with \<open>d < 10\<close> show False by (simp add: of_char_digit)
qed

lemma str_nat_hd: "\<exists>d cs. d < 10 \<and> str_nat n = digit_char d # cs"
proof (induction n rule: str_nat.induct)
  case (1 n)
  show ?case
  proof (cases "n < 10")
    case True
    then show ?thesis by (auto simp: str_nat.simps[of n])
  next
    case False
    with 1 obtain d cs where "d < 10" "str_nat (n div 10) = digit_char d # cs" by auto
    with False show ?thesis by (auto simp: str_nat.simps[of n])
  qed
qed

lemma str_int_inj: "str_int a = str_int b \<Longrightarrow> a = b"
proof -
  assume eq: "str_int a = str_int b"
  obtain da ca where a: "da < 10" "str_nat (nat \<bar>a\<bar>) = digit_char da # ca"
    using str_nat_hd by blast
  obtain db cb where b: "db < 10" "str_nat (nat \<bar>b\<bar>) = digit_char db # cb"
    using str_nat_hd by blast
  consider "a < 0" "b < 0" | "a < 0" "\<not> b < 0" | "\<not> a < 0" "b < 0" | "\<not> a < 0" "\<not> b < 0"
    by blast
  then show ?thesis
  proof cases
    case 1
    with eq have "str_nat (nat (- a)) = str_nat (nat (- b))" by (simp add: str_int_def)
    then have "nat (- a) = nat (- b)" by (rule str_nat_inj)
    with 1 show ?thesis by simp
  next
    case 2
    then have "nat \<bar>b\<bar> = nat b" by simp
    with 2 eq b digit_char_not_minus[of db] show ?thesis by (simp add: str_int_def)
  next
    case 3
    then have "nat \<bar>a\<bar> = nat a" by simp
    with 3 eq a digit_char_not_minus[of da] show ?thesis by (auto simp add: str_int_def)
  next
    case 4
    with eq have "str_nat (nat a) = str_nat (nat b)" by (simp add: str_int_def)
    then have "nat a = nat b" by (rule str_nat_inj)
    with 4 show ?thesis by simp
  qed
qed

subsection \<open>The year loop stops at the first match\<close>

lemma startswith_iff: "startswith s p \<longleftrightarrow> (\<exists>ss. s = p @ ss)"
  by (induction s p rule: startswith.induct) auto

lemma add_to_year_first_match:
  "add_to_year p d df ys s =
     (case first_matching_year p ys of
        None \<Rightarrow> (None, s)
      | Some y \<Rightarrow>
         (case data_by_year (self s) y of
            None \<Rightarrow> (Some (KeyError y), s)
          | Some bucket \<Rightarrow>
             (None, logging INFO (''Dados de '' @ d @ '' adicionados ao ano '' @ str_int y)
                      (s\<lparr>self := (self s)\<lparr>data_by_year := (data_by_year (self s))(y \<mapsto> bucket @ [df])\<rparr>\<rparr>))))"
  by (induction ys) (simp_all add: first_matching_year_def)

lemma first_matching_year_Some:
  "first_matching_year p ys = Some y \<Longrightarrow> y \<in> set ys \<and> str_in (str_int y) p"
  unfolding first_matching_year_def by (auto simp: find_Some_iff)

lemma first_matching_year_None:
  "first_matching_year p ys = None \<longleftrightarrow> (\<forall>y \<in> set ys. \<not> str_in (str_int y) p)"
  unfolding first_matching_year_def by (simp add: find_None_iff) blast

lemma first_matching_year_unique:
  assumes "y \<in> set ys" "str_in (str_int y) p"
    and "\<forall>y' \<in> set ys. str_in (str_int y') p \<longrightarrow> y' = y"
  shows "first_matching_year p ys = Some y"
proof (cases "first_matching_year p ys")
  case None
  then have "\<forall>y \<in> set ys. \<not> str_in (str_int y) p" by (simp only: first_matching_year_None)
  with assms(1,2) show ?thesis by blast
next
  case (Some z)
  from first_matching_year_Some[OF Some] assms(3) have "z = y" by blast
  with Some show ?thesis by simp
qed

lemma keyed_lookup: "keyed s \<Longrightarrow> y \<in> set (years (config (self s))) \<Longrightarrow> \<exists>b. data_by_year (self s) y = Some b"
  by (auto simp: keyed_def list_all_iff)

lemma process_entry_extracted:
  assumes "p \<noteq> []" "p \<in> fs s"
    and "read_and_tag pf (config (self s)) (p, d) = Inr df"
  shows "process_entry pf (p, d) s =
           add_to_year p d df (years (config (self s))) (logging INFO (''Processando arquivo: '' @ d) s)"
  using assms by (simp add: process_entry_def extract_data_from_file_cases)

lemma str_in_iff: "str_in sub s \<longleftrightarrow> (\<exists>ps ss. s = ps @ sub @ ss)"
proof (induction s)
  case Nil
  then show ?case by simp
next
  case (Cons c cs)
  show ?case
  proof
    assume "str_in sub (c # cs)"
    then consider "startswith (c # cs) sub" | "str_in sub cs" by auto
    then show "\<exists>ps ss. c # cs = ps @ sub @ ss"
    proof cases
      case 1
      then obtain ss where "c # cs = sub @ ss" by (auto simp: startswith_iff)
      then have "c # cs = [] @ sub @ ss" by simp
      then show ?thesis by blast
    next
      case 2
      with Cons obtain ps ss where "cs = ps @ sub @ ss" by auto
      then have "c # cs = (c # ps) @ sub @ ss" by simp
      then show ?thesis by blast
    qed
  next
    assume "\<exists>ps ss. c # cs = ps @ sub @ ss"
    then obtain ps ss where eq: "c # cs = ps @ sub @ ss" by auto
    show "str_in sub (c # cs)"
    proof (cases ps)
      case Nil
      with eq have "startswith (c # cs) sub" by (auto simp: startswith_iff)
      then show ?thesis by simp
    next
      case (Cons p ps')
      with eq have "cs = ps' @ sub @ ss" by simp
      with Cons.IH show ?thesis by auto
    qed
  qed
qed

subsection \<open>Extraction reads the configuration only\<close>

lemma extract_fst_logging:
  "fst (extract_data_from_file pf fi (logging l m s)) = fst (extract_data_from_file pf fi s)"
  by (cases fi) (simp add: extract_data_from_file_cases split: sum.splits)

lemma extract_Some_read:
  "fst (extract_data_from_file pf (p, d) s) = Some df \<longleftrightarrow> read_and_tag pf (config (self s)) (p, d) = Inr df"
  by (simp add: extract_data_from_file_cases split: sum.splits)

lemma extract_None_read:
  "fst (extract_data_from_file pf (p, d) s) = None \<longleftrightarrow> (\<exists>e. read_and_tag pf (config (self s)) (p, d) = Inl e)"
  by (simp add: extract_data_from_file_cases split: sum.splits)

subsection \<open>The loop of the save and the state it threads\<close>

lemma save_loop_indep:
  "self s2 = self s \<Longrightarrow>
   fst (save_loop pf ys sh s2) = fst (save_loop pf ys sh s)
   \<and> fst (snd (save_loop pf ys sh s2)) = fst (snd (save_loop pf ys sh s))"
proof (induction ys arbitrary: sh s s2)
  case Nil
  then show ?case by simp
next
  case (Cons y ys)
  show ?case
  proof (cases "data_by_year (self s) y")
    case None
    with Cons.prems show ?thesis by simp
  next
    case (Some bucket)
    show ?thesis
    proof (cases "bucket = []")
      case True
      with Some Cons.prems Cons.IH[of "logging WARNING (''Nenhum dado encontrado para o ano '' @ str_int y) s2"
          "logging WARNING (''Nenhum dado encontrado para o ano '' @ str_int y) s" sh]
      show ?thesis by simp
    next
      case False
      show ?thesis
      proof (cases "concat_ignore_index pf bucket")
        case (Inl e)
        with Some False Cons.prems show ?thesis by simp
      next
        case (Inr df_year)
        show ?thesis
        proof (cases "to_excel pf sh df_year (str_int y)")
          case (Some e)
          with \<open>data_by_year (self s) y = Some bucket\<close> False Inr Cons.prems show ?thesis by simp
        next
          case None
          with \<open>data_by_year (self s) y = Some bucket\<close> False Inr Cons.prems
            Cons.IH[of "logging INFO (''Dados do ano '' @ str_int y @ '' salvos com sucesso'') s2"
              "logging INFO (''Dados do ano '' @ str_int y @ '' salvos com sucesso'') s"
              "put_sheet sh (str_int y) (to_grid df_year)"]
          show ?thesis by simp
        qed
      qed
    qed
  qed
qed

lemma save_loop_state:
  "\<exists>msgs. snd (snd (save_loop pf ys sh s)) = s\<lparr>log := log s @ msgs\<rparr>"
proof (induction ys arbitrary: sh s)
  case Nil
  have "s = s\<lparr>log := log s @ []\<rparr>" by simp
  then show ?case by (metis save_loop.simps(1) snd_conv)
next
  case (Cons y ys)
  have self_id: "\<exists>msgs. s = s\<lparr>log := log s @ msgs\<rparr>"
    by (rule exI[of _ "[]"]) simp
  have step: "\<exists>msgs. snd (snd (save_loop pf ys sh' (logging l m s))) = s\<lparr>log := log s @ msgs\<rparr>"
    for sh' l m
  proof -
    from Cons.IH[of sh' "logging l m s"] obtain msgs where
      "snd (snd (save_loop pf ys sh' (logging l m s))) = (logging l m s)\<lparr>log := log (logging l m s) @ msgs\<rparr>"
      by blast
    then have "snd (snd (save_loop pf ys sh' (logging l m s))) = s\<lparr>log := log s @ ((l, m) # msgs)\<rparr>"
      by (simp add: logging_def)
    then show ?thesis by blast
  qed
  show ?case
    using self_id step
    by (simp split: option.splits sum.splits)
qed

lemma save_loop_frame:
  "self (snd (snd (save_loop pf ys sh s))) = self s"
  "fs (snd (snd (save_loop pf ys sh s))) = fs s"
  "workbooks (snd (snd (save_loop pf ys sh s))) = workbooks s"
proof -
  obtain msgs where "snd (snd (save_loop pf ys sh s)) = s\<lparr>log := log s @ msgs\<rparr>"
    using save_loop_state by blast
  then show "self (snd (snd (save_loop pf ys sh s))) = self s"
    "fs (snd (snd (save_loop pf ys sh s))) = fs s"
    "workbooks (snd (snd (save_loop pf ys sh s))) = workbooks s"
    by simp_all
qed

lemma sheets_written_self:
  "self s2 = self s \<Longrightarrow> sheets_written pf s2 = sheets_written pf s"
proof -
  assume eq: "self s2 = self s"
  then have "self (s2\<lparr>fs := insert (output_path pf s2) (fs s2)\<rparr>) = self (s\<lparr>fs := insert (output_path pf s) (fs s)\<rparr>)"
    by simp
  from save_loop_indep[OF this] eq show ?thesis
    by (simp add: sheets_written_def)
qed

lemma write_workbook_result:
  "write_workbook pf (output_path pf s) s =
     (case ExcelWriter pf (fs s) (output_path pf s) of
        Some e \<Rightarrow> (Some e, s)
      | None \<Rightarrow>
         (case writer_close pf (sheets_written pf s) of
            Some e \<Rightarrow> (Some e, snd (snd (save_loop pf (years (config (self s))) []
                                           (s\<lparr>fs := insert (output_path pf s) (fs s)\<rparr>))))
          | None \<Rightarrow> (fst (save_loop pf (years (config (self s))) []
                             (s\<lparr>fs := insert (output_path pf s) (fs s)\<rparr>)),
                     (snd (snd (save_loop pf (years (config (self s))) []
                                  (s\<lparr>fs := insert (output_path pf s) (fs s)\<rparr>))))
                       \<lparr>workbooks := (workbooks s)(output_path pf s \<mapsto> sheets_written pf s)\<rparr>)))"
proof -
  obtain r sh s1 where loop:
    "save_loop pf (years (config (self s))) [] (s\<lparr>fs := insert (output_path pf s) (fs s)\<rparr>) = (r, sh, s1)"
    by (cases "save_loop pf (years (config (self s))) [] (s\<lparr>fs := insert (output_path pf s) (fs s)\<rparr>)")
      auto
  have "workbooks s1 = workbooks s"
    using save_loop_frame(3)[of pf "years (config (self s))" "[]"
        "s\<lparr>fs := insert (output_path pf s) (fs s)\<rparr>"] loop by simp
  with loop show ?thesis
    by (simp add: write_workbook_def sheets_written_def split: option.splits)
qed

lemma save_consolidated_file_alt:
  "save_consolidated_file pf s =
     (case write_workbook pf (output_path pf s) s of
        (None, s') \<Rightarrow> logging INFO (''Arquivo consolidado salvo em: '' @ output_path pf s) s'
      | (Some e, s') \<Rightarrow> logging ERROR (''Erro ao salvar arquivo consolidado: '' @ str_exn e) s')"
  unfolding save_consolidated_file_def output_path_def Let_def by (rule refl)

lemma workbooks_save:
  "workbooks (save_consolidated_file pf s) =
     (if ExcelWriter pf (fs s) (output_path pf s) = None \<and> writer_close pf (sheets_written pf s) = None
      then (workbooks s)(output_path pf s \<mapsto> sheets_written pf s)
      else workbooks s)"
  by (simp add: save_consolidated_file_alt write_workbook_result save_loop_frame
      split: option.splits)

subsection \<open>Filing a table under its year\<close>

lemma first_matching_year_iff:
  "first_matching_year p ys = Some y \<longleftrightarrow>
     (\<exists>pre post. ys = pre @ y # post \<and> str_in (str_int y) p
        \<and> (\<forall>z \<in> set pre. \<not> str_in (str_int z) p))"
proof
  assume "first_matching_year p ys = Some y"
  then obtain i where i: "i < length ys" "str_in (str_int (ys ! i)) p" "y = ys ! i"
    "\<forall>j<i. \<not> str_in (str_int (ys ! j)) p"
    unfolding first_matching_year_def find_Some_iff by blast
  have "ys = take i ys @ y # drop (Suc i) ys"
    using i(1,3) by (simp add: id_take_nth_drop)
  moreover have "\<forall>z \<in> set (take i ys). \<not> str_in (str_int z) p"
  proof
    fix z assume "z \<in> set (take i ys)"
    then obtain j where "j < length (take i ys)" "z = take i ys ! j"
      by (auto simp: in_set_conv_nth)
    with i(4) show "\<not> str_in (str_int z) p" by simp
  qed
  ultimately show "\<exists>pre post. ys = pre @ y # post \<and> str_in (str_int y) p
        \<and> (\<forall>z \<in> set pre. \<not> str_in (str_int z) p)"
    using i(2,3) by blast
next
  assume "\<exists>pre post. ys = pre @ y # post \<and> str_in (str_int y) p
        \<and> (\<forall>z \<in> set pre. \<not> str_in (str_int z) p)"
  then obtain pre post where ys: "ys = pre @ y # post" and y: "str_in (str_int y) p"
    and pre: "\<forall>z \<in> set pre. \<not> str_in (str_int z) p" by blast
  from pre have "find (\<lambda>y. str_in (str_int y) p) (pre @ y # post) = Some y"
    using y by (induction pre) simp_all
  with ys show "first_matching_year p ys = Some y" by (simp add: first_matching_year_def)
qed

text \<open>
  C1.  When a file exists and its table is extracted, \<^verbatim>\<open>process_files\<close> tries the configured
  years in list order and files the table under the first year whose decimal string occurs
  in the path: that bucket gets the table appended at its end, every other bucket stays as
  it was, and nothing is raised.  In particular, when exactly one configured year's string
  occurs in the path, the table goes to that year's bucket and to no other.  (The
  extractor's dictionary holds every configured year, as the constructor leaves it.)
\<close>

theorem process_entry_first_matching_year:
  assumes "file_path \<noteq> []" and "file_path \<in> fs s"
    and "fst (extract_data_from_file pf (file_path, description) s) = Some df"
    and "keyed s"
  shows "fst (process_entry pf (file_path, description) s) = None
    \<and> (case first_matching_year file_path (years (config (self s))) of
         None \<Rightarrow>
           data_by_year (self (snd (process_entry pf (file_path, description) s)))
             = data_by_year (self s)
       | Some y \<Rightarrow>
           \<exists>bucket. data_by_year (self s) y = Some bucket
             \<and> data_by_year (self (snd (process_entry pf (file_path, description) s)))
                 = (data_by_year (self s))(y \<mapsto> bucket @ [df]))
    \<and> (\<forall>y \<in> set (years (config (self s))).
          str_in (str_int y) file_path
          \<and> (\<forall>y' \<in> set (years (config (self s))). str_in (str_int y') file_path \<longrightarrow> y' = y)
          \<longrightarrow> (\<exists>bucket. data_by_year (self s) y = Some bucket
                 \<and> data_by_year (self (snd (process_entry pf (file_path, description) s))) y
                     = Some (bucket @ [df]))
              \<and> (\<forall>z. z \<noteq> y \<longrightarrow>
                   data_by_year (self (snd (process_entry pf (file_path, description) s))) z
                     = data_by_year (self s) z))"
proof -
  let ?ys = "years (config (self s))"
  let ?s1 = "logging INFO (''Processando arquivo: '' @ description) s"
  let ?r = "process_entry pf (file_path, description) s"
  from assms(3) have read: "read_and_tag pf (config (self s)) (file_path, description) = Inr df"
    by (simp add: extract_Some_read)
  have entry: "?r = add_to_year file_path description df ?ys ?s1"
    using assms(1,2) read by (rule process_entry_extracted)
  have main: "fst ?r = None
    \<and> (case first_matching_year file_path ?ys of
         None \<Rightarrow> data_by_year (self (snd ?r)) = data_by_year (self s)
       | Some y \<Rightarrow> \<exists>bucket. data_by_year (self s) y = Some bucket
             \<and> data_by_year (self (snd ?r)) = (data_by_year (self s))(y \<mapsto> bucket @ [df]))"
  proof (cases "first_matching_year file_path ?ys")
    case None
    then show ?thesis by (simp add: entry add_to_year_first_match)
  next
    case (Some y)
    then have "y \<in> set ?ys" by (simp add: first_matching_year_Some)
    with assms(4) obtain b where "data_by_year (self s) y = Some b"
      using keyed_lookup by blast
    with Some show ?thesis by (simp add: entry add_to_year_first_match)
  qed
  have single: "(\<exists>bucket. data_by_year (self s) y = Some bucket
                 \<and> data_by_year (self (snd ?r)) y = Some (bucket @ [df]))
              \<and> (\<forall>z. z \<noteq> y \<longrightarrow> data_by_year (self (snd ?r)) z = data_by_year (self s) z)"
    if "y \<in> set ?ys" and "str_in (str_int y) file_path"
      and "\<forall>y' \<in> set ?ys. str_in (str_int y') file_path \<longrightarrow> y' = y" for y
  proof -
    from that have "first_matching_year file_path ?ys = Some y"
      by (rule first_matching_year_unique)
    with main obtain bucket where "data_by_year (self s) y = Some bucket"
      "data_by_year (self (snd ?r)) = (data_by_year (self s))(y \<mapsto> bucket @ [df])"
      by auto
    then show ?thesis by simp
  qed
  from main single show ?thesis by blast
qed


lemma digit_chars:
  "digit_char 0 = CHR ''0''" "digit_char 1 = CHR ''1''" "digit_char 2 = CHR ''2''"
  "digit_char 3 = CHR ''3''" "digit_char 4 = CHR ''4''" "digit_char 5 = CHR ''5''"
  "digit_char 6 = CHR ''6''" "digit_char 7 = CHR ''7''" "digit_char 8 = CHR ''8''"
  "digit_char 9 = CHR ''9''" "digit_char (Suc 0) = CHR ''1''"
  by (simp_all add: digit_char_def char_of_eq_iff)

lemma ex_str_int:
  "str_int 2019 = ''2019''" "str_int 2020 = ''2020''" "str_int 2021 = ''2021''"
  by (simp_all add: str_int_def str_nat.simps digit_chars)

lemma default_str_int:
  "str_int 2014 = ''2014''" "str_int 2015 = ''2015''" "str_int 2016 = ''2016''"
  "str_int 2017 = ''2017''" "str_int 2018 = ''2018''" "str_int 2022 = ''2022''"
  "str_int 2023 = ''2023''" "str_int 2024 = ''2024''"
  by (simp_all add: str_int_def str_nat.simps digit_chars)

lemma default_years:
  "years default_config = [2014, 2015, 2016, 2017, 2018, 2019, 2020, 2021, 2022, 2023, 2024]"
  by (simp add: default_config_def post_init_def)

lemma ex_config_simps:
  "sheet_name ex_config = ''EFEITO''" "start_col ex_config = ''A''" "end_col ex_config = ''B''"
  "start_row ex_config = 1" "end_row ex_config = 1" "years ex_config = [2019, 2020, 2021]"
  by (simp_all add: ex_config_def default_config_def)

declare ex_config_simps [simp]

lemma ex_state_simps:
  "years (config (self ex_state)) = [2019, 2020, 2021]"
  "config (self ex_state) = ex_config"
  "fs ex_state = {''a_2020.xlsx'', ''bad_2020.xlsx'', ''noyear.xlsx'', ''b_2020.xlsx''}"
  "log ex_state = []"
  "data_by_year (self ex_state) = empty_buckets [2019, 2020, 2021]"
  "files_to_process (self ex_state) = ex_files"
  "output_folder (self ex_state) = ''/work/resultados_efeito''"
  by (simp_all add: ex_state_def ex_extractor_def PCATEffectExtractor_def ex_platform_def
      ex_config_simps)

lemma ex_keyed: "keyed ex_state"
  by (simp add: keyed_def ex_state_simps empty_buckets_def)

lemma path_2025_other:
  "path_2025 \<noteq> ''a_2020.xlsx''" "path_2025 \<noteq> ''b_2020.xlsx''" "path_2025 \<noteq> ''noyear.xlsx''"
  "path_2025 \<noteq> ''bad_2020.xlsx''" "path_2025 \<noteq> ''gone_2021.xlsx''" "path_2025 \<noteq> []"
  "''a_2020.xlsx'' \<noteq> path_2025" "''b_2020.xlsx'' \<noteq> path_2025" "''noyear.xlsx'' \<noteq> path_2025"
  "''bad_2020.xlsx'' \<noteq> path_2025" "''gone_2021.xlsx'' \<noteq> path_2025"
  by (simp_all add: path_2025_def pcats_dir_def)

lemma ex_open_workbook:
  "open_workbook ex_platform ''a_2020.xlsx'' = Inr [''EFEITO'' \<mapsto> ex_sheet]"
  "open_workbook ex_platform ''b_2020.xlsx'' = Inr [''EFEITO'' \<mapsto> ex_sheet]"
  "open_workbook ex_platform ''noyear.xlsx'' = Inr [''EFEITO'' \<mapsto> ex_sheet]"
  "open_workbook ex_platform ''bad_2020.xlsx'' = Inr [''Plan1'' \<mapsto> ex_sheet]"
  "open_workbook ex_platform path_2025 = Inr [''EFEITO'' \<mapsto> wide_sheet]"
  by (simp_all add: ex_platform_def path_2025_other)

lemma ex_frame_AB:
  "ex_frame_of ''A:B'' header body =
     Inr \<lparr>columns = [(cell_at header 0, map (\<lambda>r. cell_at r 0) body),
                     (cell_at header 1, map (\<lambda>r. cell_at r 1) body)],
          index_len = length body\<rparr>"
  by (simp add: ex_frame_of_def ex_col_def)

lemma frame_of_ex_platform: "frame_of ex_platform = ex_frame_of"
  by (simp add: ex_platform_def)

lemma ex_read_region:
  "open_workbook ex_platform p = Inr [''EFEITO'' \<mapsto> ex_sheet] \<Longrightarrow>
   pd_read_excel ex_platform p ''EFEITO'' ''A:B'' 1 0 = Inr ex_region"
  by (simp add: pd_read_excel_def frame_of_ex_platform ex_frame_AB ex_sheet_def cell_at_def
      ex_region_def)

lemma ex_read_table:
  "open_workbook ex_platform p = Inr [''EFEITO'' \<mapsto> ex_sheet] \<Longrightarrow>
   read_and_tag ex_platform ex_config (p, d) = Inr (ex_table p d)"
  by (simp add: read_and_tag_def ex_config_simps ex_read_region df_insert_def ex_region_def
      ex_table_def)

lemma ex_read_a:
  "read_and_tag ex_platform (config (self ex_state)) (''a_2020.xlsx'', ''A'') =
     Inr \<lparr>columns = [(Text ''Arquivo_Origem'', [Text ''A'']),
                     (Text ''Caminho_Arquivo'', [Text ''a_2020.xlsx'']),
                     (Text ''A'', [Number 1]), (Text ''B'', [Number 2])],
          index_len = 1\<rparr>"
  using ex_read_table[OF ex_open_workbook(1), of "''A''"]
  by (simp add: ex_state_simps ex_table_def)

theorem process_entry_first_matching_year_witness:
  "data_by_year (self (snd (process_entry ex_platform (''a_2020.xlsx'', ''A'') ex_state))) 2020 =
     Some [\<lparr>columns = [(Text ''Arquivo_Origem'', [Text ''A'']),
                       (Text ''Caminho_Arquivo'', [Text ''a_2020.xlsx'']),
                       (Text ''A'', [Number 1]), (Text ''B'', [Number 2])],
            index_len = 1\<rparr>]
   \<and> data_by_year (self (snd (process_entry ex_platform (''a_2020.xlsx'', ''A'') ex_state))) 2019 = Some []
   \<and> data_by_year (self (snd (process_entry ex_platform (''a_2020.xlsx'', ''A'') ex_state))) 2021 = Some []
   \<and> fst (process_entry ex_platform (''a_2020.xlsx'', ''A'') ex_state) = None
   \<and> first_matching_year ''a_2020.xlsx'' (years (config (self ex_state))) = Some 2020"
proof -
  have h1: "''a_2020.xlsx'' \<noteq> []" by simp
  have h2: "''a_2020.xlsx'' \<in> fs ex_state" by (simp add: ex_state_simps)
  have h3: "fst (extract_data_from_file ex_platform (''a_2020.xlsx'', ''A'') ex_state) =
     Some \<lparr>columns = [(Text ''Arquivo_Origem'', [Text ''A'']),
                     (Text ''Caminho_Arquivo'', [Text ''a_2020.xlsx'']),
                     (Text ''A'', [Number 1]), (Text ''B'', [Number 2])],
          index_len = 1\<rparr>"
    by (simp add: extract_Some_read ex_read_a)
  have fm: "first_matching_year ''a_2020.xlsx'' (years (config (self ex_state))) = Some 2020"
    by (simp add: first_matching_year_def ex_state_simps ex_str_int)
  note step = process_entry_first_matching_year [OF h1 h2 h3 ex_keyed]
  note only = step [THEN conjunct2, THEN conjunct2, rule_format, of 2020]
  from step have noexn: "fst (process_entry ex_platform (''a_2020.xlsx'', ''A'') ex_state) = None"
    by (rule conjunct1)
  have "(\<exists>bucket. data_by_year (self ex_state) 2020 = Some bucket
          \<and> data_by_year (self (snd (process_entry ex_platform (''a_2020.xlsx'', ''A'') ex_state))) 2020
              = Some (bucket @
                   [\<lparr>columns = [(Text ''Arquivo_Origem'', [Text ''A'']),
                                 (Text ''Caminho_Arquivo'', [Text ''a_2020.xlsx'']),
                                 (Text ''A'', [Number 1]), (Text ''B'', [Number 2])],
                      index_len = 1\<rparr>]))
       \<and> (\<forall>z. z \<noteq> 2020 \<longrightarrow>
             data_by_year (self (snd (process_entry ex_platform (''a_2020.xlsx'', ''A'') ex_state))) z
               = data_by_year (self ex_state) z)"
    by (rule only) (simp_all add: ex_state_simps ex_str_int)
  then obtain bucket where b: "data_by_year (self ex_state) 2020 = Some bucket"
    and upd: "data_by_year (self (snd (process_entry ex_platform (''a_2020.xlsx'', ''A'') ex_state))) 2020
              = Some (bucket @
                   [\<lparr>columns = [(Text ''Arquivo_Origem'', [Text ''A'']),
                                 (Text ''Caminho_Arquivo'', [Text ''a_2020.xlsx'']),
                                 (Text ''A'', [Number 1]), (Text ''B'', [Number 2])],
                      index_len = 1\<rparr>])"
    and others: "\<And>z. z \<noteq> 2020 \<Longrightarrow>
             data_by_year (self (snd (process_entry ex_platform (''a_2020.xlsx'', ''A'') ex_state))) z
               = data_by_year (self ex_state) z"
    by blast
  from b have "bucket = []" by (simp add: ex_state_simps empty_buckets_def)
  with upd noexn fm others[of 2019] others[of 2021] show ?thesis
    by (simp add: ex_state_simps empty_buckets_def)
qed

subsection \<open>A table whose path names no year\<close>

lemma sheets_written_logging:
  "sheets_written pf (logging l m s) = sheets_written pf s"
  by (rule sheets_written_self) simp

lemma output_path_logging:
  "output_path pf (logging l m s) = output_path pf s"
  by (simp add: output_path_def)

lemma workbooks_save_logging:
  "workbooks (save_consolidated_file pf (logging l m s)) = workbooks (save_consolidated_file pf s)"
  by (simp add: workbooks_save sheets_written_logging output_path_logging)

text \<open>
  C2.  When a file exists and its table is extracted, but no configured year's decimal
  string occurs in its path, the table is dropped without a word: the whole effect of the
  loop body is the one INFO record announcing the file, no exception is raised, the loop
  goes on with the next entry, the extractor (every bucket included) is as before, and so
  the sheets a later \<^verbatim>\<open>save_consolidated_file\<close> writes, and the workbooks it leaves, are
  those it would have written had the file not been there.
\<close>

theorem process_entry_no_year_dropped:
  assumes "file_path \<noteq> []" and "file_path \<in> fs s"
    and "fst (extract_data_from_file pf (file_path, description) s) = Some df"
    and "\<forall>y \<in> set (years (config (self s))). \<not> str_in (str_int y) file_path"
  shows "process_entry pf (file_path, description) s
           = (None, logging INFO (''Processando arquivo: '' @ description) s)
    \<and> self (snd (process_entry pf (file_path, description) s)) = self s
    \<and> data_by_year (self (snd (process_entry pf (file_path, description) s))) = data_by_year (self s)
    \<and> process_files_loop pf ((file_path, description) # rest) s
        = process_files_loop pf rest (logging INFO (''Processando arquivo: '' @ description) s)
    \<and> sheets_written pf (snd (process_entry pf (file_path, description) s)) = sheets_written pf s
    \<and> workbooks (save_consolidated_file pf (snd (process_entry pf (file_path, description) s)))
        = workbooks (save_consolidated_file pf s)"
proof -
  let ?s1 = "logging INFO (''Processando arquivo: '' @ description) s"
  from assms(3) have read: "read_and_tag pf (config (self s)) (file_path, description) = Inr df"
    by (simp add: extract_Some_read)
  from assms(4) have none: "first_matching_year file_path (years (config (self s))) = None"
    by (simp only: first_matching_year_None)
  have entry: "process_entry pf (file_path, description) s = (None, ?s1)"
    using process_entry_extracted[OF assms(1,2) read] none
    by (simp add: add_to_year_first_match)
  have sw: "sheets_written pf ?s1 = sheets_written pf s"
    by (rule sheets_written_logging)
  have wb: "workbooks (save_consolidated_file pf ?s1) = workbooks (save_consolidated_file pf s)"
    by (rule workbooks_save_logging)
  show ?thesis
    by (simp add: entry sheets_written_logging workbooks_save_logging)
qed

lemma default_state_simps:
  "years (config (self default_state)) = [2014, 2015, 2016, 2017, 2018, 2019, 2020, 2021, 2022, 2023, 2024]"
  "config (self default_state) = default_config"
  "fs default_state = {path_2025}"
  "log default_state = []"
  by (simp_all add: default_state_def PCATEffectExtractor_def default_years)

lemma path_2025_years:
  "\<not> str_in ''2014'' path_2025" "\<not> str_in ''2015'' path_2025" "\<not> str_in ''2016'' path_2025"
  "\<not> str_in ''2017'' path_2025" "\<not> str_in ''2018'' path_2025" "\<not> str_in ''2019'' path_2025"
  "\<not> str_in ''2020'' path_2025" "\<not> str_in ''2021'' path_2025" "\<not> str_in ''2022'' path_2025"
  "\<not> str_in ''2023'' path_2025" "\<not> str_in ''2024'' path_2025"
  by (simp_all add: path_2025_def pcats_dir_def bsl_def)

lemma path_2025_no_year:
  "\<forall>y \<in> set (years (config (self default_state))). \<not> str_in (str_int y) path_2025"
  by (simp add: default_state_simps default_years ex_str_int default_str_int path_2025_years)

text \<open>The default columns \<open>AI:AV\<close> are the positions 34 to 47.\<close>

lemma ex_col_default: "ex_col ''AI'' = Some 34" "ex_col ''AV'' = Some 47"
  by (simp_all add: ex_col_def)

lemma cell_at_wide_row: "cell_at wide_row j = (if j < 48 then Number (int j) else Blank)"
  by (simp add: cell_at_def wide_row_def)

lemma ex_read_wide:
  "pd_read_excel ex_platform path_2025 ''EFEITO'' ''AI:AV'' 11 0 =
     Inr \<lparr>columns = map (\<lambda>j. (cell_at wide_row j, [cell_at wide_row j, cell_at wide_row j]))
                        [34..<48],
          index_len = 2\<rparr>"
  by (simp add: pd_read_excel_def ex_open_workbook frame_of_ex_platform ex_frame_of_def
      ex_col_default wide_sheet_def)

lemma ex_read_2025:
  "\<exists>df. read_and_tag ex_platform default_config (path_2025, d) = Inr df"
proof -
  have "Text ''Arquivo_Origem'' \<notin> fst ` set (map (\<lambda>j. (cell_at wide_row j,
             [cell_at wide_row j, cell_at wide_row j])) [34..<48])"
    "Text ''Caminho_Arquivo'' \<notin> fst ` set (map (\<lambda>j. (cell_at wide_row j,
             [cell_at wide_row j, cell_at wide_row j])) [34..<48])"
    by (simp_all add: cell_at_wide_row)
  then show ?thesis
    by (simp add: read_and_tag_def default_config_def ex_read_wide df_insert_def)
qed

theorem process_entry_no_year_dropped_witness:
  "process_entry ex_platform (path_2025, maranhao ''2025'') default_state
     = (None, logging INFO (''Processando arquivo: '' @ maranhao ''2025'') default_state)
   \<and> path_2025 \<in> fs default_state
   \<and> fst (extract_data_from_file ex_platform (path_2025, maranhao ''2025'') default_state) \<noteq> None"
proof -
  have h1: "path_2025 \<noteq> []" by (simp add: path_2025_def pcats_dir_def)
  have h2: "path_2025 \<in> fs default_state" by (simp add: default_state_simps)
  obtain df where
    "read_and_tag ex_platform (config (self default_state)) (path_2025, maranhao ''2025'') = Inr df"
    using ex_read_2025 by (auto simp add: default_state_simps)
  then have h3: "fst (extract_data_from_file ex_platform (path_2025, maranhao ''2025'') default_state)
                   = Some df"
    by (simp add: extract_Some_read)
  from process_entry_no_year_dropped [OF h1 h2 h3 path_2025_no_year] h2 h3
  show ?thesis by simp
qed

subsection \<open>The sheets of the consolidated workbook\<close>

lemma overlay_same: "overlay g g = g"
  by (induction g) simp_all

lemma sheet_of_year_grid:
  "sheet_of_year pf d y (n, g) \<Longrightarrow> sheet_of_year pf d y (n', g') \<Longrightarrow> g' = g \<and> n' = n"
  by (auto simp add: sheet_of_year_def split: option.splits sum.splits)

lemma sheet_of_year_has_data: "sheet_of_year pf d y sh \<Longrightarrow> has_data d y"
  by (auto simp add: sheet_of_year_def has_data_def split: option.splits)

lemma sheet_of_year_name: "sheet_of_year pf d y sh \<Longrightarrow> fst sh = str_int y"
  by (simp add: sheet_of_year_def)

lemma held_names:
  "list_all2 (sheet_of_year pf d) zs sh \<Longrightarrow> map fst sh = map str_int zs"
  by (induction rule: list_all2_induct) (simp_all add: sheet_of_year_name)

lemma rewrite_same_sheet:
  "list_all2 (sheet_of_year pf d) zs sh \<Longrightarrow> sheet_of_year pf d y (str_int y, g) \<Longrightarrow>
   map (\<lambda>(n, old). if n = str_int y then (n, overlay old g) else (n, old)) sh = sh"
proof (induction rule: list_all2_induct)
  case Nil
  show ?case by simp
next
  case (Cons z zs x sh)
  obtain n old where x: "x = (n, old)" by (cases x) auto
  have "(if n = str_int y then (n, overlay old g) else (n, old)) = (n, old)"
  proof (cases "n = str_int y")
    case True
    from Cons.hyps(1) x have "n = str_int z" by (simp add: sheet_of_year_def)
    with True have "z = y" using str_int_inj by simp
    with Cons.hyps(1) x have "sheet_of_year pf d y (n, old)" by simp
    from sheet_of_year_grid[OF this Cons.prems] have "g = old" by simp
    then show ?thesis by (simp add: overlay_same)
  next
    case False
    then show ?thesis by simp
  qed
  with Cons.IH[OF Cons.prems] x show ?case by simp
qed

text \<open>
  Writing the sheet of a year into a writer that holds the sheets of distinct years: the
  writer is unchanged if it holds that year's sheet already, and gains it at the end if not.
\<close>

lemma put_sheet_held:
  assumes "list_all2 (sheet_of_year pf d) zs sh"
    and "sheet_of_year pf d y (str_int y, g)"
  shows "put_sheet sh (str_int y) g = (if y \<in> set zs then sh else sh @ [(str_int y, g)])"
proof -
  have names: "fst ` set sh = str_int ` set zs"
    using held_names[OF assms(1)] by (metis image_set)
  have "str_int y \<in> fst ` set sh \<longleftrightarrow> y \<in> set zs"
    unfolding names using str_int_inj by blast
  then show ?thesis
    using rewrite_same_sheet[OF assms] by (simp add: put_sheet_def)
qed

lemma first_seen_set: "set (first_seen seen ys) = set seen \<union> set ys"
  by (induction ys arbitrary: seen) auto

lemma first_seen_distinct: "distinct seen \<Longrightarrow> distinct (first_seen seen ys)"
  by (induction ys arbitrary: seen) auto

lemma first_seen_fresh:
  "distinct ys \<Longrightarrow> set seen \<inter> set ys = {} \<Longrightarrow> first_seen seen ys = seen @ ys"
  by (induction ys arbitrary: seen) auto

lemma first_occurrences_distinct: "distinct ys \<Longrightarrow> first_occurrences ys = ys"
  using first_seen_fresh[of ys "[]"] by (simp add: first_occurrences_def)

lemma first_occurrences_set:
  "set (first_occurrences ys) = set ys" "distinct (first_occurrences ys)"
  by (simp_all add: first_occurrences_def first_seen_set first_seen_distinct)

lemma save_loop_held:
  assumes "distinct zs" and "list_all2 (sheet_of_year pf (data_by_year (self s))) zs sh"
  shows "\<exists>zs'. distinct zs'
           \<and> list_all2 (sheet_of_year pf (data_by_year (self s))) zs' (fst (snd (save_loop pf ys sh s)))
           \<and> set zs' \<subseteq> set zs \<union> {y \<in> set ys. has_data (data_by_year (self s)) y}
           \<and> (fst (save_loop pf ys sh s) = None \<longrightarrow>
                zs' = first_seen zs (filter (has_data (data_by_year (self s))) ys)
                \<and> log (snd (snd (save_loop pf ys sh s)))
                    = log s @ map (year_message (data_by_year (self s))) ys)"
  using assms
proof (induction ys arbitrary: zs sh s)
  case Nil
  then show ?case by auto
next
  case (Cons y ys)
  let ?d = "data_by_year (self s)"
  have stop: ?case if "save_loop pf (y # ys) sh s = (Some e, sh, s)" for e
    using that Cons.prems by auto
  show ?case
  proof (cases "?d y")
    case None
    then show ?thesis by (intro stop[of "KeyError y"]) simp
  next
    case (Some bucket)
    show ?thesis
    proof (cases "bucket = []")
      case True
      let ?s1 = "logging WARNING (''Nenhum dado encontrado para o ano '' @ str_int y) s"
      have step: "save_loop pf (y # ys) sh s = save_loop pf ys sh ?s1"
        using Some True by simp
      have nd: "\<not> has_data ?d y" using Some True by (simp add: has_data_def)
      then have msg: "year_message ?d y = (WARNING, ''Nenhum dado encontrado para o ano '' @ str_int y)"
        by (simp add: year_message_def)
      from Cons.IH[of zs ?s1 sh] Cons.prems obtain zs' where zs':
        "distinct zs'"
        "list_all2 (sheet_of_year pf ?d) zs' (fst (snd (save_loop pf ys sh ?s1)))"
        "set zs' \<subseteq> set zs \<union> {y \<in> set ys. has_data ?d y}"
        "fst (save_loop pf ys sh ?s1) = None \<longrightarrow>
           zs' = first_seen zs (filter (has_data ?d) ys)
           \<and> log (snd (snd (save_loop pf ys sh ?s1))) = log ?s1 @ map (year_message ?d) ys"
        by auto
      have a: "set zs' \<subseteq> set zs \<union> {z \<in> set (y # ys). has_data ?d z}"
        using zs'(3) by auto
      have b: "fst (save_loop pf (y # ys) sh s) = None \<longrightarrow>
           zs' = first_seen zs (filter (has_data ?d) (y # ys))
           \<and> log (snd (snd (save_loop pf (y # ys) sh s))) = log s @ map (year_message ?d) (y # ys)"
        unfolding step using zs'(4) nd msg by simp
      have c: "list_all2 (sheet_of_year pf ?d) zs' (fst (snd (save_loop pf (y # ys) sh s)))"
        unfolding step by (rule zs'(2))
      from zs'(1) c a b show ?thesis by (intro exI[of _ zs'] conjI)
    next
      case False
      have hd: "has_data ?d y" using Some False by (simp add: has_data_def)
      show ?thesis
      proof (cases "concat_ignore_index pf bucket")
        case (Inl e)
        with Some False show ?thesis by (intro stop[of e]) simp
      next
        case (Inr df_year)
        show ?thesis
        proof (cases "to_excel pf sh df_year (str_int y)")
          case (Some e)
          with \<open>?d y = Some bucket\<close> False Inr show ?thesis by (intro stop[of e]) simp
        next
          case None
          let ?s1 = "logging INFO (''Dados do ano '' @ str_int y @ '' salvos com sucesso'') s"
          let ?sh1 = "put_sheet sh (str_int y) (to_grid df_year)"
          let ?zs1 = "if y \<in> set zs then zs else zs @ [y]"
          have step: "save_loop pf (y # ys) sh s = save_loop pf ys ?sh1 ?s1"
            using \<open>?d y = Some bucket\<close> False Inr None by simp
          have sy: "sheet_of_year pf ?d y (str_int y, to_grid df_year)"
            using \<open>?d y = Some bucket\<close> False Inr by (simp add: sheet_of_year_def)
          have sh1: "?sh1 = (if y \<in> set zs then sh else sh @ [(str_int y, to_grid df_year)])"
            using Cons.prems(2) sy by (rule put_sheet_held)
          have d1: "distinct ?zs1" using Cons.prems(1) by simp
          have h1: "list_all2 (sheet_of_year pf (data_by_year (self ?s1))) ?zs1 ?sh1"
            unfolding sh1 using Cons.prems(2) sy by (simp add: list_all2_appendI)
          have msg: "year_message ?d y = (INFO, ''Dados do ano '' @ str_int y @ '' salvos com sucesso'')"
            using hd by (simp add: year_message_def)
          from Cons.IH[OF d1 h1] obtain zs' where zs':
            "distinct zs'"
            "list_all2 (sheet_of_year pf ?d) zs' (fst (snd (save_loop pf ys ?sh1 ?s1)))"
            "set zs' \<subseteq> set ?zs1 \<union> {y \<in> set ys. has_data ?d y}"
            "fst (save_loop pf ys ?sh1 ?s1) = None \<longrightarrow>
               zs' = first_seen ?zs1 (filter (has_data ?d) ys)
               \<and> log (snd (snd (save_loop pf ys ?sh1 ?s1))) = log ?s1 @ map (year_message ?d) ys"
            by auto
          have "set ?zs1 \<subseteq> set zs \<union> {y}" by auto
          with zs'(3) have "set zs' \<subseteq> set zs \<union> {y} \<union> {z \<in> set ys. has_data ?d z}"
            by blast
          with hd have a: "set zs' \<subseteq> set zs \<union> {z \<in> set (y # ys). has_data ?d z}"
            by auto
          have b: "fst (save_loop pf (y # ys) sh s) = None \<longrightarrow>
               zs' = first_seen zs (filter (has_data ?d) (y # ys))
               \<and> log (snd (snd (save_loop pf (y # ys) sh s))) = log s @ map (year_message ?d) (y # ys)"
            unfolding step using zs'(4) hd msg by simp
          have c: "list_all2 (sheet_of_year pf ?d) zs' (fst (snd (save_loop pf (y # ys) sh s)))"
            unfolding step by (rule zs'(2))
          from zs'(1) c a b show ?thesis by (intro exI[of _ zs'] conjI)
        qed
      qed
    qed
  qed
qed

lemma sheets_written_held:
  "\<exists>zs. distinct zs
     \<and> list_all2 (sheet_of_year pf (data_by_year (self s))) zs (sheets_written pf s)
     \<and> set zs \<subseteq> {y \<in> set (years (config (self s))). has_data (data_by_year (self s)) y}
     \<and> (fst (save_loop pf (years (config (self s))) []
                (s\<lparr>fs := insert (output_path pf s) (fs s)\<rparr>)) = None \<longrightarrow>
          zs = first_occurrences (filter (has_data (data_by_year (self s))) (years (config (self s))))
          \<and> log (snd (snd (save_loop pf (years (config (self s))) []
                (s\<lparr>fs := insert (output_path pf s) (fs s)\<rparr>))))
              = log s @ map (year_message (data_by_year (self s))) (years (config (self s))))"
proof -
  let ?s0 = "s\<lparr>fs := insert (output_path pf s) (fs s)\<rparr>"
  have "distinct ([] :: int list)"
    and "list_all2 (sheet_of_year pf (data_by_year (self ?s0))) [] []"
    by simp_all
  from save_loop_held[OF this, of "years (config (self s))"]
  show ?thesis by (simp add: sheets_written_def first_occurrences_def)
qed


lemma ex_filled_simps:
  "years (config (self ex_filled)) = [2019, 2020, 2021, 2020]"
  "data_by_year (self ex_filled) = (empty_buckets [2019, 2020, 2021])
      (2020 \<mapsto> [ex_table ''a_2020.xlsx'' ''A'', ex_table ''b_2020.xlsx'' ''B2''])"
  "fs ex_filled = {''/work/resultados_efeito'', ''a_2020.xlsx'', ''bad_2020.xlsx'',
                   ''noyear.xlsx'', ''b_2020.xlsx''}"
  "log ex_filled = []"
  "workbooks ex_filled = Map.empty"
  "output_folder (self ex_filled) = ''/work/resultados_efeito''"
  by (simp_all add: ex_filled_def ex_state_def ex_extractor_def PCATEffectExtractor_def
      ex_platform_def)


lemma ex_platform_simps:
  "concat_ignore_index ex_platform = ex_concat"
  "to_excel ex_platform sh df name = None"
  "writer_close ex_platform sh = (if sh = [] then Some (Exception ''At least one sheet must be visible'') else None)"
  "ExcelWriter ex_platform paths path =
     (if ''/work/resultados_efeito'' \<in> paths then None
      else Some (Exception ''Cannot save file into a non-existent directory''))"
  "makedirs ex_platform paths d = Inr {}"
  by (simp_all add: ex_platform_def)

text \<open>The two tables of 2020 concatenated, as the sheet shows them.\<close>

lemma ex_grid_2020:
  "to_grid (stack2 (ex_table ''a_2020.xlsx'' ''A'') (ex_table ''b_2020.xlsx'' ''B2'')) =
     [[Text ''Arquivo_Origem'', Text ''Caminho_Arquivo'', Text ''A'', Text ''B''],
      [Text ''A'', Text ''a_2020.xlsx'', Number 1, Number 2],
      [Text ''B2'', Text ''b_2020.xlsx'', Number 1, Number 2]]"
  by (simp add: to_grid_def stack2_def ex_table_def cell_at_def upt_rec[of 0] upt_rec[of 1])





subsection \<open>What a successful extraction returns\<close>

lemma read_and_tag_eq:
  "read_and_tag pf cfg (p, d) =
     (case pd_read_excel pf p (sheet_name cfg) (start_col cfg @ '':'' @ end_col cfg)
             (end_row cfg - start_row cfg + 1) (start_row cfg - 1) of
        Inl e \<Rightarrow> Inl e
      | Inr region \<Rightarrow>
         if Text ''Arquivo_Origem'' \<in> fst ` set (columns region)
         then Inl (Exception ''cannot insert, already exists'')
         else if Text ''Caminho_Arquivo'' \<in> fst ` set (columns region)
         then Inl (Exception ''cannot insert, already exists'')
         else Inr \<lparr>columns = (Text ''Arquivo_Origem'', replicate (index_len region) (Text d))
                              # (Text ''Caminho_Arquivo'', replicate (index_len region) (Text p))
                              # columns region,
                    index_len = index_len region\<rparr>)"
  by (simp add: read_and_tag_def df_insert_def split: sum.splits)

lemma pd_read_excel_fails:
  "pd_read_excel pf p (sheet_name cfg) (start_col cfg @ '':'' @ end_col cfg)
      (end_row cfg - start_row cfg + 1) (start_row cfg - 1) = Inl e
   \<Longrightarrow> read_and_tag pf cfg (p, d) = Inl e"
  by (simp add: read_and_tag_eq)

text \<open>
  Which rows of the sheet a successful read hands to the table builder: the row at
  position \<open>skiprows\<close> (counted from 0) as the header, the \<open>nrows\<close> rows after it as data.
\<close>

lemma pd_read_excel_rows:
  assumes "pd_read_excel pf path sheet usecols nrows skiprows = Inr region"
  shows "\<exists>wb g. open_workbook pf path = Inr wb \<and> wb sheet = Some g \<and> 0 \<le> nrows
    \<and> (if length g \<le> nat skiprows then region = \<lparr>columns = [], index_len = 0\<rparr>
        else frame_of pf usecols (g ! nat skiprows)
               (take (nat nrows) (drop (Suc (nat skiprows)) g)) = Inr region)"
proof -
  from assms obtain wb where wb: "open_workbook pf path = Inr wb"
    by (auto simp add: pd_read_excel_def split: sum.splits)
  with assms have n: "0 \<le> nrows"
    by (auto simp add: pd_read_excel_def split: if_splits)
  with assms wb obtain g where g: "wb sheet = Some g"
    by (auto simp add: pd_read_excel_def split: option.splits)
  have rows: "if length g \<le> nat skiprows then region = \<lparr>columns = [], index_len = 0\<rparr>
        else frame_of pf usecols (g ! nat skiprows)
               (take (nat nrows) (drop (Suc (nat skiprows)) g)) = Inr region"
  proof (cases "length g \<le> nat skiprows")
    case True
    then have "drop (nat skiprows) g = []" by simp
    with assms wb n g True show ?thesis by (simp add: pd_read_excel_def)
  next
    case False
    then have "drop (nat skiprows) g = g ! nat skiprows # drop (Suc (nat skiprows)) g"
      by (simp add: Cons_nth_drop_Suc)
    with assms wb n g False show ?thesis by (simp add: pd_read_excel_def)
  qed
  from wb g n rows show ?thesis by blast
qed

text \<open>
  C4.  The columns read are the configured ones and the two identifying columns are
  inserted as the claim says, but the rows are not the configured rows \<open>start_row\<close> to
  \<open>end_row\<close>: the call passes no \<^verbatim>\<open>header\<close> argument, so the library takes row \<open>start_row\<close>
  for the column labels and reads \<open>end_row - start_row + 1\<close> rows after it, which ends one
  row beyond \<open>end_row\<close>.  With rows 1 to 2 and columns \<open>A:B\<close> configured, on a sheet whose
  first three rows are \<open>(A, B)\<close>, \<open>(1, 2)\<close> and \<open>(3, 4)\<close>, the configured rectangle is
  \<open>(A, B)\<close>, \<open>(1, 2)\<close>; the table returned has the rows \<open>(1, 2)\<close> and \<open>(3, 4)\<close>, the
  second from row 3, and row 1 appears only as the column labels.
\<close>

theorem extract_reads_past_end_row:
  "start_row (ex_config\<lparr>end_row := 2\<rparr>) = 1 \<and> end_row (ex_config\<lparr>end_row := 2\<rparr>) = 2
   \<and> open_workbook ex_platform ''a_2020.xlsx''
       = Inr [''EFEITO'' \<mapsto> [[Text ''A'', Text ''B''], [Number 1, Number 2], [Number 3, Number 4]]]
   \<and> read_and_tag ex_platform (ex_config\<lparr>end_row := 2\<rparr>) (''a_2020.xlsx'', ''A'') =
       Inr \<lparr>columns = [(Text ''Arquivo_Origem'', [Text ''A'', Text ''A'']),
                       (Text ''Caminho_Arquivo'', [Text ''a_2020.xlsx'', Text ''a_2020.xlsx'']),
                       (Text ''A'', [Number 1, Number 3]), (Text ''B'', [Number 2, Number 4])],
            index_len = 2\<rparr>"
  by (simp add: read_and_tag_eq pd_read_excel_def ex_open_workbook frame_of_ex_platform
      ex_frame_AB ex_sheet_def cell_at_def)

text \<open>
  In general: when \<^verbatim>\<open>extract_data_from_file\<close> returns a table, the workbook was opened,
  it has the configured sheet, and \<open>end_row - start_row + 1\<close> is not negative.  Of the
  sheet, the row after the \<open>start_row - 1\<close> skipped ones (row \<open>start_row\<close>) is taken for
  the column labels, and the rows after it, \<open>end_row - start_row + 1\<close> of them at most
  (rows \<open>start_row + 1\<close> to \<open>end_row + 1\<close>), are the data, restricted to the columns
  \<open>start_col:end_col\<close> by the library; a sheet with nothing after the skipped rows gives an
  empty table.  The table returned is that one with two columns in front: at position 0
  \<open>Arquivo_Origem\<close>, holding the description in every row, and at position 1
  \<open>Caminho_Arquivo\<close>, holding the path as given.  The state is untouched.
\<close>

lemma extract_data_from_file_rows:
  assumes "extract_data_from_file pf (file_path, description) s = (Some t, s')"
  shows "\<exists>wb g region.
      open_workbook pf file_path = Inr wb
    \<and> wb (sheet_name (config (self s))) = Some g
    \<and> 0 \<le> end_row (config (self s)) - start_row (config (self s)) + 1
    \<and> (if length g \<le> nat (start_row (config (self s)) - 1)
        then region = \<lparr>columns = [], index_len = 0\<rparr>
        else frame_of pf (start_col (config (self s)) @ '':'' @ end_col (config (self s)))
               (g ! nat (start_row (config (self s)) - 1))
               (take (nat (end_row (config (self s)) - start_row (config (self s)) + 1))
                  (drop (Suc (nat (start_row (config (self s)) - 1))) g)) = Inr region)
    \<and> t = \<lparr>columns = (Text ''Arquivo_Origem'', replicate (index_len region) (Text description))
                      # (Text ''Caminho_Arquivo'', replicate (index_len region) (Text file_path))
                      # columns region,
            index_len = index_len region\<rparr>
    \<and> columns t ! 0 = (Text ''Arquivo_Origem'', replicate (index_len region) (Text description))
    \<and> columns t ! 1 = (Text ''Caminho_Arquivo'', replicate (index_len region) (Text file_path))
    \<and> drop 2 (columns t) = columns region
    \<and> s' = s"
proof -
  let ?cfg = "config (self s)"
  from assms have tagged: "read_and_tag pf ?cfg (file_path, description) = Inr t" and s': "s' = s"
    by (auto simp add: extract_data_from_file_cases split: sum.splits)
  from tagged obtain region where
    r: "pd_read_excel pf file_path (sheet_name ?cfg) (start_col ?cfg @ '':'' @ end_col ?cfg)
          (end_row ?cfg - start_row ?cfg + 1) (start_row ?cfg - 1) = Inr region"
    by (auto simp add: read_and_tag_eq split: sum.splits)
  with tagged have t: "t = \<lparr>columns = (Text ''Arquivo_Origem'', replicate (index_len region) (Text description))
                      # (Text ''Caminho_Arquivo'', replicate (index_len region) (Text file_path))
                      # columns region,
            index_len = index_len region\<rparr>"
    by (simp add: read_and_tag_eq split: if_splits)
  from t have pos: "columns t ! 0 = (Text ''Arquivo_Origem'', replicate (index_len region) (Text description))"
    "columns t ! 1 = (Text ''Caminho_Arquivo'', replicate (index_len region) (Text file_path))"
    "drop 2 (columns t) = columns region"
    by simp_all
  from pd_read_excel_rows[OF r] obtain wb g where
    "open_workbook pf file_path = Inr wb" "wb (sheet_name ?cfg) = Some g"
    "0 \<le> end_row ?cfg - start_row ?cfg + 1"
    "if length g \<le> nat (start_row ?cfg - 1) then region = \<lparr>columns = [], index_len = 0\<rparr>
     else frame_of pf (start_col ?cfg @ '':'' @ end_col ?cfg) (g ! nat (start_row ?cfg - 1))
            (take (nat (end_row ?cfg - start_row ?cfg + 1))
               (drop (Suc (nat (start_row ?cfg - 1))) g)) = Inr region"
    by blast
  with t pos s' show ?thesis by blast
qed

lemma extract_data_from_file_rows_example:
  "fst (extract_data_from_file ex_platform (''a_2020.xlsx'', ''A'') ex_state) =
       Some \<lparr>columns = [(Text ''Arquivo_Origem'', [Text ''A'']),
                       (Text ''Caminho_Arquivo'', [Text ''a_2020.xlsx'']),
                       (Text ''A'', [Number 1]), (Text ''B'', [Number 2])],
            index_len = 1\<rparr>
   \<and> ex_sheet ! 0 = [Text ''A'', Text ''B'']
   \<and> take 1 (drop 1 ex_sheet) = [[Number 1, Number 2]]"
proof -
  obtain t s' where ex: "extract_data_from_file ex_platform (''a_2020.xlsx'', ''A'') ex_state = (Some t, s')"
    by (simp add: extract_data_from_file_cases ex_read_a)
  from extract_data_from_file_rows [OF ex] obtain wb g region where
    wb: "open_workbook ex_platform ''a_2020.xlsx'' = Inr wb"
    and g: "wb (sheet_name (config (self ex_state))) = Some g"
    and rows: "if length g \<le> nat (start_row (config (self ex_state)) - 1)
        then region = \<lparr>columns = [], index_len = 0\<rparr>
        else frame_of ex_platform
               (start_col (config (self ex_state)) @ '':'' @ end_col (config (self ex_state)))
               (g ! nat (start_row (config (self ex_state)) - 1))
               (take (nat (end_row (config (self ex_state)) - start_row (config (self ex_state)) + 1))
                  (drop (Suc (nat (start_row (config (self ex_state)) - 1))) g)) = Inr region"
    and t: "t = \<lparr>columns = (Text ''Arquivo_Origem'', replicate (index_len region) (Text ''A''))
                      # (Text ''Caminho_Arquivo'', replicate (index_len region) (Text ''a_2020.xlsx''))
                      # columns region,
            index_len = index_len region\<rparr>"
    by blast
  from wb g have "g = ex_sheet"
    by (auto simp add: ex_open_workbook ex_state_simps)
  with rows have "region = ex_region"
    by (simp add: ex_state_simps frame_of_ex_platform ex_frame_AB ex_sheet_def cell_at_def
        ex_region_def)
  with t ex show ?thesis by (simp add: ex_region_def ex_sheet_def)
qed

subsection \<open>A failed extraction\<close>

text \<open>
  C5.  When the read or the tagging raises (a missing sheet, a malformed file, an I/O error:
  whatever the library reports), \<^verbatim>\<open>extract_data_from_file\<close> returns \<^verbatim>\<open>None\<close> rather than
  raising, and logs one ERROR record naming the description, the path and the message.
  \<^verbatim>\<open>process_files\<close> then raises nothing, leaves the extractor (every bucket) as it was, and
  goes on with the next file.
\<close>

theorem extract_failure_logged_and_skipped:
  assumes "read_and_tag pf (config (self s)) (file_path, description) = Inl e"
  shows "extract_data_from_file pf (file_path, description) s
           = (None, logging ERROR (''Erro ao processar '' @ description @ '' ('' @ file_path
                                      @ ''): '' @ str_exn e) s)
    \<and> fst (process_entry pf (file_path, description) s) = None
    \<and> self (snd (process_entry pf (file_path, description) s)) = self s
    \<and> (file_path \<noteq> [] \<and> file_path \<in> fs s \<longrightarrow>
         process_entry pf (file_path, description) s
           = (None, logging ERROR (''Erro ao processar '' @ description @ '' ('' @ file_path
                                      @ ''): '' @ str_exn e)
                      (logging INFO (''Processando arquivo: '' @ description) s))
         \<and> process_files_loop pf ((file_path, description) # rest) s
             = process_files_loop pf rest
                 (logging ERROR (''Erro ao processar '' @ description @ '' ('' @ file_path
                                   @ ''): '' @ str_exn e)
                    (logging INFO (''Processando arquivo: '' @ description) s)))"
proof -
  let ?err = "logging ERROR (''Erro ao processar '' @ description @ '' ('' @ file_path
                                      @ ''): '' @ str_exn e)"
  let ?s1 = "logging INFO (''Processando arquivo: '' @ description) s"
  have ex: "extract_data_from_file pf (file_path, description) s' = (None, ?err s')"
    if "config (self s') = config (self s)" for s'
    using assms that by (simp add: extract_data_from_file_cases)
  have entry: "process_entry pf (file_path, description) s = (None, ?err ?s1)"
    if "file_path \<noteq> []" "file_path \<in> fs s"
    using that assms by (simp add: process_entry_def extract_data_from_file_cases)
  have entry_any: "fst (process_entry pf (file_path, description) s) = None
    \<and> self (snd (process_entry pf (file_path, description) s)) = self s"
  proof (cases "file_path \<noteq> [] \<and> file_path \<in> fs s")
    case True
    then show ?thesis by (simp add: entry)
  next
    case False
    then show ?thesis by (auto simp add: process_entry_def)
  qed
  have loop: "process_files_loop pf ((file_path, description) # rest) s
             = process_files_loop pf rest (?err ?s1)"
    if "file_path \<noteq> []" "file_path \<in> fs s"
    using entry[OF that] by simp
  from ex[of s] entry entry_any loop show ?thesis by simp
qed

theorem extract_failure_logged_and_skipped_witness:
  "extract_data_from_file ex_platform (''bad_2020.xlsx'', ''B'') ex_state
     = (None, logging ERROR ''Erro ao processar B (bad_2020.xlsx): Worksheet named EFEITO not found''
                ex_state)
   \<and> data_by_year (self (snd (process_entry ex_platform (''bad_2020.xlsx'', ''B'') ex_state)))
       = empty_buckets [2019, 2020, 2021]
   \<and> process_files_loop ex_platform [(''bad_2020.xlsx'', ''B'')] ex_state
       = (None, logging ERROR ''Erro ao processar B (bad_2020.xlsx): Worksheet named EFEITO not found''
                  (logging INFO ''Processando arquivo: B'' ex_state))"
proof -
  have h: "''bad_2020.xlsx'' \<noteq> [] \<and> ''bad_2020.xlsx'' \<in> fs ex_state"
    by (simp add: ex_state_simps)
  from extract_failure_logged_and_skipped [OF ex_read_bad, of "[]"] h
  show ?thesis by (simp add: ex_state_simps)
qed

subsection \<open>Entries that are skipped\<close>

text \<open>
  C8.  In \<^verbatim>\<open>process_files\<close> an entry with an empty path is passed over without a trace:
  no log record, no read, the state is unchanged, and the loop goes on with the rest of the
  list.  An entry whose path does not exist gets exactly one ERROR record (the message
  \<^verbatim>\<open>Arquivo nao encontrado\<close>, with its tilde, and the path); nothing is read for it (the outcome is the
  same on every platform, so the library is never consulted), nothing is raised, and the
  loop goes on with the rest of the list.
\<close>

theorem process_entry_skips:
  "process_entry pf ([], other) s = (None, s)
   \<and> process_files_loop pf (([], other) # rest) s = process_files_loop pf rest s
   \<and> (file_path \<noteq> [] \<and> file_path \<notin> fs s \<longrightarrow>
        process_entry pf (file_path, description) s
          = (None, logging ERROR (''Arquivo n'' @ [CHR 0xE3] @ ''o encontrado: '' @ file_path) s)
        \<and> process_entry pf' (file_path, description) s = process_entry pf (file_path, description) s
        \<and> self (snd (process_entry pf (file_path, description) s)) = self s
        \<and> process_files_loop pf ((file_path, description) # rest) s
            = process_files_loop pf rest
                (logging ERROR (''Arquivo n'' @ [CHR 0xE3] @ ''o encontrado: '' @ file_path) s))"
  by (simp add: process_entry_def)

theorem process_entry_skips_witness:
  "process_entry ex_platform ([], ''unset'') ex_state = (None, ex_state)
   \<and> ''gone_2021.xlsx'' \<notin> fs ex_state
   \<and> process_entry ex_platform (''gone_2021.xlsx'', ''G'') ex_state
       = (None, logging ERROR (''Arquivo n'' @ [CHR 0xE3] @ ''o encontrado: gone_2021.xlsx'') ex_state)"
proof -
  have h: "''gone_2021.xlsx'' \<noteq> [] \<and> ''gone_2021.xlsx'' \<notin> fs ex_state"
    by (simp add: ex_state_simps)
  from process_entry_skips [where pf = ex_platform and other = "''unset''" and s = ex_state
      and rest = "[]" and file_path = "''gone_2021.xlsx''" and pf' = ex_platform
      and description = "''G''"] h
  show ?thesis by simp
qed

subsection \<open>What \<^verbatim>\<open>_create_output_directory\<close> does\<close>

lemma create_output_directory_there:
  "output_folder (self s) \<in> fs s \<Longrightarrow> create_output_directory pf s = (None, s)"
  by (simp add: create_output_directory_def)

lemma create_output_directory_absent:
  "output_folder (self s) \<notin> fs s \<Longrightarrow>
   create_output_directory pf s =
     (case makedirs pf (fs s) (output_folder (self s)) of
        Inl e \<Rightarrow> (Some e, s)
      | Inr made \<Rightarrow>
         (None, logging INFO (''Diret'' @ [CHR 0xF3] @ ''rio criado: '' @ output_folder (self s))
                  (s\<lparr>fs := insert (output_folder (self s)) (fs s \<union> made)\<rparr>)))"
  by (simp add: create_output_directory_def Let_def)

lemma create_output_directory_raises:
  "create_output_directory pf s = (Some e, s1) \<Longrightarrow>
   s1 = s \<and> output_folder (self s) \<notin> fs s \<and> makedirs pf (fs s) (output_folder (self s)) = Inl e"
  by (auto simp add: create_output_directory_def Let_def split: if_splits sum.splits)

lemma create_output_directory_returns:
  "create_output_directory pf s = (None, s1) \<Longrightarrow>
   self s1 = self s \<and> workbooks s1 = workbooks s \<and> fs s \<subseteq> fs s1
   \<and> output_folder (self s) \<in> fs s1"
  by (auto simp add: create_output_directory_def Let_def split: if_splits sum.splits)

subsection \<open>A failed write\<close>

lemma write_workbook_self:
  "self (snd (write_workbook pf (output_path pf s) s)) = self s"
  by (simp add: write_workbook_result save_loop_frame split: option.splits)

text \<open>
  C6.  When the \<^verbatim>\<open>with\<close> block of \<^verbatim>\<open>save_consolidated_file\<close> ends in an exception (from
  opening the writer, from concatenating or writing a sheet, or from the save on closing),
  the method catches it, logs one ERROR record with its message and returns: the model's
  \<open>save_consolidated_file\<close> yields a state and nothing else, so there is neither an exception
  nor a return value to tell the caller.  The extractor is as before.  The caller \<^verbatim>\<open>run\<close>
  indeed goes on to log its success message and returns normally.
\<close>

theorem save_consolidated_file_failure_logged:
  assumes "write_workbook pf (output_path pf s) s = (Some e, s1)"
  shows "save_consolidated_file pf s
           = logging ERROR (''Erro ao salvar arquivo consolidado: '' @ str_exn e) s1
    \<and> log (save_consolidated_file pf s)
        = log s1 @ [(ERROR, ''Erro ao salvar arquivo consolidado: '' @ str_exn e)]
    \<and> self (save_consolidated_file pf s) = self s
    \<and> (list_ex (\<lambda>(path, _). path \<noteq> []) (files_to_process (self s0))
        \<and> create_output_directory pf
              (logging INFO ''Iniciando processamento dos arquivos PCAT'' s0) = (None, s')
        \<and> process_files pf s' = (None, s)
        \<longrightarrow> run pf s0
              = (None, logging INFO success_message
                         (logging ERROR (''Erro ao salvar arquivo consolidado: '' @ str_exn e) s1)))"
proof -
  have save: "save_consolidated_file pf s
           = logging ERROR (''Erro ao salvar arquivo consolidado: '' @ str_exn e) s1"
    using assms by (simp add: save_consolidated_file_alt)
  have "self s1 = self s"
    using write_workbook_self[of pf s] assms by simp
  with save have self: "self (save_consolidated_file pf s) = self s" by simp
  have run: "run pf s0 = (None, logging INFO success_message (save_consolidated_file pf s))"
    if "list_ex (\<lambda>(path, _). path \<noteq> []) (files_to_process (self s0))"
      and "create_output_directory pf
              (logging INFO ''Iniciando processamento dos arquivos PCAT'' s0) = (None, s')"
      and "process_files pf s' = (None, s)"
    using that by (simp add: run_def Let_def)
  from save self run show ?thesis by simp
qed

lemma ex_write_fails:
  "write_workbook ex_platform (output_path ex_platform ex_state) ex_state
     = (Some (Exception ''Cannot save file into a non-existent directory''), ex_state)"
  by (simp add: write_workbook_result ex_platform_simps ex_state_simps)

lemma ex_gone_simps:
  "files_to_process (self ex_gone) = [(''gone_2021.xlsx'', ''G'')]"
  "years (config (self ex_gone)) = [2019, 2020, 2021]"
  "data_by_year (self ex_gone) = empty_buckets [2019, 2020, 2021]"
  "fs ex_gone = {''a_2020.xlsx'', ''bad_2020.xlsx'', ''noyear.xlsx'', ''b_2020.xlsx''}"
  "output_folder (self ex_gone) = ''/work/resultados_efeito''"
  by (simp_all add: ex_gone_def ex_state_def ex_extractor_def PCATEffectExtractor_def
      ex_platform_def)

lemma ex_gone_created:
  "create_output_directory ex_platform
       (logging INFO ''Iniciando processamento dos arquivos PCAT'' ex_gone)
   = (None, ex_gone_started)"
  by (simp add: create_output_directory_absent ex_gone_simps ex_platform_simps ex_gone_started_def)

lemma ex_gone_processed:
  "process_files ex_platform ex_gone_started
   = (None, logging ERROR (''Arquivo n'' @ [CHR 0xE3] @ ''o encontrado: gone_2021.xlsx'')
              ex_gone_started)"
  by (simp add: process_files_def ex_gone_started_def ex_gone_simps process_entry_def)

lemma ex_gone_write_fails:
  "self s = self ex_gone \<Longrightarrow> ''/work/resultados_efeito'' \<in> fs s \<Longrightarrow>
   fst (write_workbook ex_platform (output_path ex_platform s) s)
     = Some (Exception ''At least one sheet must be visible'')"
proof -
  assume s: "self s = self ex_gone" and dir: "''/work/resultados_efeito'' \<in> fs s"
  have "self (s\<lparr>fs := insert (output_path ex_platform s) (fs s)\<rparr>) = self ex_gone"
    using s by simp
  then have loop: "fst (snd (save_loop ex_platform [2019, 2020, 2021] []
                     (s\<lparr>fs := insert (output_path ex_platform s) (fs s)\<rparr>))) = []"
    by (simp add: ex_gone_simps empty_buckets_def)
  have "sheets_written ex_platform s = []"
    using loop s by (simp add: sheets_written_def ex_gone_simps)
  with dir show ?thesis
    by (simp add: write_workbook_result ex_platform_simps)
qed

theorem save_consolidated_file_failure_logged_witness:
  "save_consolidated_file ex_platform ex_state
     = logging ERROR ''Erro ao salvar arquivo consolidado: Cannot save file into a non-existent directory''
         ex_state
   \<and> (\<exists>s1. run ex_platform ex_gone
         = (None, logging INFO success_message
                    (logging ERROR ''Erro ao salvar arquivo consolidado: At least one sheet must be visible''
                       s1)))"
proof -
  let ?s = "logging ERROR (''Arquivo n'' @ [CHR 0xE3] @ ''o encontrado: gone_2021.xlsx'')
              ex_gone_started"
  have a: "save_consolidated_file ex_platform ex_state
     = logging ERROR ''Erro ao salvar arquivo consolidado: Cannot save file into a non-existent directory''
         ex_state"
    using save_consolidated_file_failure_logged [OF ex_write_fails] by simp
  have "fst (write_workbook ex_platform (output_path ex_platform ?s) ?s)
     = Some (Exception ''At least one sheet must be visible'')"
    by (rule ex_gone_write_fails) (simp_all add: ex_gone_started_def ex_gone_simps)
  then obtain s1 where w: "write_workbook ex_platform (output_path ex_platform ?s) ?s
     = (Some (Exception ''At least one sheet must be visible''), s1)"
    by (cases "write_workbook ex_platform (output_path ex_platform ?s) ?s") auto
  have files: "list_ex (\<lambda>(path, _). path \<noteq> []) (files_to_process (self ex_gone))"
    by (simp add: ex_gone_simps)
  from save_consolidated_file_failure_logged [OF w, of ex_gone ex_gone_started]
    files ex_gone_created ex_gone_processed
  have "run ex_platform ex_gone
         = (None, logging INFO success_message
                    (logging ERROR ''Erro ao salvar arquivo consolidado: At least one sheet must be visible''
                       s1))"
    by simp
  with a show ?thesis by blast
qed

subsection \<open>What \<^verbatim>\<open>process_files\<close> does to the buckets, and what it preserves\<close>

lemma filed_cases:
  "filed pf cfg paths y (p, d) =
     (if p \<noteq> [] \<and> p \<in> paths \<and> first_matching_year p (years cfg) = Some y
      then (case read_and_tag pf cfg (p, d) of Inl e \<Rightarrow> [] | Inr df \<Rightarrow> [df])
      else [])"
  by (simp add: filed_def)

lemma map_option_append_Nil: "map_option (\<lambda>b. b @ []) x = x"
  by (cases x) simp_all

lemma map_option_append_append:
  "map_option (\<lambda>b. b @ ys) (map_option (\<lambda>b. b @ xs) x) = map_option (\<lambda>b. b @ xs @ ys) x"
  by (cases x) simp_all

text \<open>
  One entry of the file list, on an extractor whose dictionary holds every configured year:
  nothing is raised, every bucket gains what the entry contributes to it, and nothing else
  of the extractor, the file system or the saved workbooks changes.
\<close>

lemma process_entry_buckets:
  assumes "keyed s"
  shows "fst (process_entry pf fi s) = None
    \<and> (\<forall>y. data_by_year (self (snd (process_entry pf fi s))) y
            = map_option (\<lambda>b. b @ filed pf (config (self s)) (fs s) y fi) (data_by_year (self s) y))
    \<and> config (self (snd (process_entry pf fi s))) = config (self s)
    \<and> output_folder (self (snd (process_entry pf fi s))) = output_folder (self s)
    \<and> files_to_process (self (snd (process_entry pf fi s))) = files_to_process (self s)
    \<and> fs (snd (process_entry pf fi s)) = fs s
    \<and> workbooks (snd (process_entry pf fi s)) = workbooks s"
proof (cases fi)
  case (Pair p d)
  let ?s1 = "logging INFO (''Processando arquivo: '' @ d) s"
  show ?thesis
  proof (cases "p \<noteq> [] \<and> p \<in> fs s")
    case False
    then show ?thesis unfolding Pair
      by (auto simp add: process_entry_def filed_cases map_option_append_Nil option.map_ident)
  next
    case True
    show ?thesis
    proof (cases "read_and_tag pf (config (self s)) (p, d)")
      case (Inl e)
      with True show ?thesis unfolding Pair
        by (simp add: process_entry_def extract_data_from_file_cases filed_cases
            map_option_append_Nil option.map_ident)
    next
      case (Inr df)
      with True have e: "process_entry pf (p, d) s = add_to_year p d df (years (config (self s))) ?s1"
        by (simp add: process_entry_extracted)
      show ?thesis
      proof (cases "first_matching_year p (years (config (self s)))")
        case None
        then show ?thesis unfolding Pair e
          by (simp add: add_to_year_first_match filed_cases map_option_append_Nil option.map_ident)
      next
        case (Some z)
        then have "z \<in> set (years (config (self s)))" by (simp add: first_matching_year_Some)
        with assms obtain b where b: "data_by_year (self s) z = Some b"
          using keyed_lookup by blast
        have "data_by_year (self (snd (process_entry pf (p, d) s))) y
            = map_option (\<lambda>b. b @ filed pf (config (self s)) (fs s) y (p, d)) (data_by_year (self s) y)"
          for y
          unfolding e using Some b True Inr
          by (cases "y = z") (simp_all add: add_to_year_first_match filed_cases map_option_append_Nil option.map_ident)
        moreover have "fst (process_entry pf (p, d) s) = None
          \<and> config (self (snd (process_entry pf (p, d) s))) = config (self s)
          \<and> output_folder (self (snd (process_entry pf (p, d) s))) = output_folder (self s)
          \<and> files_to_process (self (snd (process_entry pf (p, d) s))) = files_to_process (self s)
          \<and> fs (snd (process_entry pf (p, d) s)) = fs s
          \<and> workbooks (snd (process_entry pf (p, d) s)) = workbooks s"
          unfolding e using Some b by (simp add: add_to_year_first_match)
        ultimately show ?thesis unfolding Pair by blast
      qed
    qed
  qed
qed

lemma keyed_preserved:
  assumes "keyed s" and "config (self s') = config (self s)"
    and "\<forall>y. data_by_year (self s) y \<noteq> None \<longrightarrow> data_by_year (self s') y \<noteq> None"
  shows "keyed s'"
  using assms by (simp add: keyed_def list_all_iff)

lemma process_entry_keyed:
  assumes "keyed s"
  shows "keyed (snd (process_entry pf fi s))"
proof -
  from process_entry_buckets[OF assms, of pf fi]
  have c: "config (self (snd (process_entry pf fi s))) = config (self s)"
    and d: "\<forall>y. data_by_year (self (snd (process_entry pf fi s))) y
            = map_option (\<lambda>b. b @ filed pf (config (self s)) (fs s) y fi) (data_by_year (self s) y)"
    by simp_all
  from d have "\<forall>y. data_by_year (self s) y \<noteq> None
      \<longrightarrow> data_by_year (self (snd (process_entry pf fi s))) y \<noteq> None"
    by simp
  with assms c show ?thesis by (rule keyed_preserved)
qed

text \<open>
  The whole loop: every bucket gains the tables of all the entries that belong to it, in
  the order of the file list.
\<close>

lemma process_files_loop_buckets:
  assumes "keyed s"
  shows "fst (process_files_loop pf files s) = None
    \<and> (\<forall>y. data_by_year (self (snd (process_files_loop pf files s))) y
            = map_option (\<lambda>b. b @ tables_for pf (config (self s)) (fs s) files y)
                (data_by_year (self s) y))
    \<and> config (self (snd (process_files_loop pf files s))) = config (self s)
    \<and> output_folder (self (snd (process_files_loop pf files s))) = output_folder (self s)
    \<and> files_to_process (self (snd (process_files_loop pf files s))) = files_to_process (self s)
    \<and> fs (snd (process_files_loop pf files s)) = fs s
    \<and> workbooks (snd (process_files_loop pf files s)) = workbooks s"
  using assms
proof (induction files arbitrary: s)
  case Nil
  show ?case by (simp add: tables_for_def map_option_append_Nil option.map_ident)
next
  case (Cons fi files)
  obtain r s' where step: "process_entry pf fi s = (r, s')"
    by (cases "process_entry pf fi s") auto
  from process_entry_buckets[OF Cons.prems, of pf fi] step
  have r: "r = None"
    and d: "\<forall>y. data_by_year (self s') y
            = map_option (\<lambda>b. b @ filed pf (config (self s)) (fs s) y fi) (data_by_year (self s) y)"
    and f: "config (self s') = config (self s)" "output_folder (self s') = output_folder (self s)"
      "files_to_process (self s') = files_to_process (self s)" "fs s' = fs s"
      "workbooks s' = workbooks s"
    by simp_all
  from process_entry_keyed[OF Cons.prems, of pf fi] step have k: "keyed s'" by simp
  have loop: "process_files_loop pf (fi # files) s = process_files_loop pf files s'"
    using step r by simp
  from Cons.IH[OF k]
  have ih: "fst (process_files_loop pf files s') = None"
    "\<forall>y. data_by_year (self (snd (process_files_loop pf files s'))) y
            = map_option (\<lambda>b. b @ tables_for pf (config (self s')) (fs s') files y)
                (data_by_year (self s') y)"
    "config (self (snd (process_files_loop pf files s'))) = config (self s')"
    "output_folder (self (snd (process_files_loop pf files s'))) = output_folder (self s')"
    "files_to_process (self (snd (process_files_loop pf files s'))) = files_to_process (self s')"
    "fs (snd (process_files_loop pf files s')) = fs s'"
    "workbooks (snd (process_files_loop pf files s')) = workbooks s'"
    by simp_all
  have "data_by_year (self (snd (process_files_loop pf files s'))) y
            = map_option (\<lambda>b. b @ tables_for pf (config (self s)) (fs s) (fi # files) y)
                (data_by_year (self s) y)" for y
    using ih(2) d f by (simp add: map_option_append_append tables_for_def)
  with ih f show ?case unfolding loop by simp
qed

lemma process_files_buckets:
  assumes "keyed s"
  shows "\<exists>s2. process_files pf s = (None, s2)
    \<and> (\<forall>y. data_by_year (self s2) y
            = map_option (\<lambda>b. b @ tables_for pf (config (self s)) (fs s) (files_to_process (self s)) y)
                (data_by_year (self s) y))
    \<and> config (self s2) = config (self s)
    \<and> output_folder (self s2) = output_folder (self s)
    \<and> files_to_process (self s2) = files_to_process (self s)
    \<and> fs s2 = fs s
    \<and> workbooks s2 = workbooks s"
proof -
  obtain r s2 where p: "process_files pf s = (r, s2)" by (cases "process_files pf s") auto
  with process_files_loop_buckets[OF assms, of pf "files_to_process (self s)"]
  show ?thesis by (simp add: process_files_def)
qed

text \<open>Without the invariant the loop may raise, but it still touches the buckets only.\<close>

lemma process_entry_frame:
  "config (self (snd (process_entry pf fi s))) = config (self s)
   \<and> output_folder (self (snd (process_entry pf fi s))) = output_folder (self s)
   \<and> files_to_process (self (snd (process_entry pf fi s))) = files_to_process (self s)
   \<and> fs (snd (process_entry pf fi s)) = fs s
   \<and> workbooks (snd (process_entry pf fi s)) = workbooks s"
proof (cases fi)
  case (Pair p d)
  let ?s1 = "logging INFO (''Processando arquivo: '' @ d) s"
  show ?thesis
  proof (cases "p \<noteq> [] \<and> p \<in> fs s")
    case False
    then show ?thesis unfolding Pair by (auto simp add: process_entry_def)
  next
    case True
    show ?thesis
    proof (cases "read_and_tag pf (config (self s)) (p, d)")
      case (Inl e)
      with True show ?thesis unfolding Pair
        by (simp add: process_entry_def extract_data_from_file_cases)
    next
      case (Inr df)
      with True have "process_entry pf (p, d) s = add_to_year p d df (years (config (self s))) ?s1"
        by (simp add: process_entry_extracted)
      then show ?thesis unfolding Pair
        by (simp add: add_to_year_first_match split: option.splits)
    qed
  qed
qed

lemma process_files_loop_frame:
  "config (self (snd (process_files_loop pf files s))) = config (self s)
   \<and> output_folder (self (snd (process_files_loop pf files s))) = output_folder (self s)
   \<and> files_to_process (self (snd (process_files_loop pf files s))) = files_to_process (self s)
   \<and> fs (snd (process_files_loop pf files s)) = fs s
   \<and> workbooks (snd (process_files_loop pf files s)) = workbooks s"
proof (induction files arbitrary: s)
  case Nil
  show ?case by simp
next
  case (Cons fi files)
  obtain r s' where step: "process_entry pf fi s = (r, s')"
    by (cases "process_entry pf fi s") auto
  from process_entry_frame[of pf fi s] step
  have f: "config (self s') = config (self s)" "output_folder (self s') = output_folder (self s)"
    "files_to_process (self s') = files_to_process (self s)" "fs s' = fs s"
    "workbooks s' = workbooks s"
    by simp_all
  show ?case
  proof (cases r)
    case None
    with step Cons.IH[of s'] f show ?thesis by simp
  next
    case (Some e)
    with step f show ?thesis by simp
  qed
qed

lemma fs_save:
  "fs (save_consolidated_file pf s) =
     (if ExcelWriter pf (fs s) (output_path pf s) = None then insert (output_path pf s) (fs s)
      else fs s)"
  by (simp add: save_consolidated_file_alt write_workbook_result save_loop_frame
      split: option.splits)

lemma no_path_iff:
  "\<not> list_ex (\<lambda>(path, _). path \<noteq> []) files \<longleftrightarrow> list_all (\<lambda>(path, _). path = []) files"
  by (induction files) auto

subsection \<open>The whole run\<close>

lemma run_guard:
  "list_all (\<lambda>(path, _). path = []) (files_to_process (self s)) \<Longrightarrow>
   run pf s = (None, logging ERROR ''Nenhum arquivo configurado para processamento''
                       (logging INFO ''Iniciando processamento dos arquivos PCAT'' s))"
  by (simp add: run_def Let_def no_path_iff)

lemma run_proceeds:
  "\<not> list_all (\<lambda>(path, _). path = []) (files_to_process (self s)) \<Longrightarrow>
   run pf s =
     (case create_output_directory pf
             (logging INFO ''Iniciando processamento dos arquivos PCAT'' s) of
        (Some e, s1) \<Rightarrow> (Some e, s1)
      | (None, s1) \<Rightarrow>
         (case process_files pf s1 of
            (Some e, s2) \<Rightarrow> (Some e, s2)
          | (None, s2) \<Rightarrow> (None, logging INFO success_message (save_consolidated_file pf s2))))"
  by (simp add: run_def Let_def no_path_iff)

lemma save_self: "self (save_consolidated_file pf s) = self s"
proof -
  obtain r s1 where w: "write_workbook pf (output_path pf s) s = (r, s1)"
    by (cases "write_workbook pf (output_path pf s) s") auto
  with write_workbook_self[of pf s] have "self s1 = self s" by simp
  with w show ?thesis by (cases r) (simp_all add: save_consolidated_file_alt)
qed

lemma output_path_self: "output_folder (self s2) = output_folder (self s) \<Longrightarrow> output_path pf s2 = output_path pf s"
  by (simp add: output_path_def)

text \<open>A write that completes leaves one sheet per year with data in the saved workbook.\<close>

lemma save_completed:
  assumes "fst (write_workbook pf (output_path pf s) s) = None"
  shows "list_all2 (sheet_of_year pf (data_by_year (self s)))
           (first_occurrences (filter (has_data (data_by_year (self s))) (years (config (self s)))))
           (sheets_written pf s)
    \<and> workbooks (save_consolidated_file pf s) (output_path pf s) = Some (sheets_written pf s)"
proof -
  let ?d = "data_by_year (self s)"
  let ?ys = "years (config (self s))"
  let ?loop = "save_loop pf ?ys [] (s\<lparr>fs := insert (output_path pf s) (fs s)\<rparr>)"
  from assms have opened: "ExcelWriter pf (fs s) (output_path pf s) = None"
    by (simp add: write_workbook_result split: option.splits)
  from assms opened have closed: "writer_close pf (sheets_written pf s) = None"
    by (simp add: write_workbook_result split: option.splits)
  from assms opened closed have loop_ok: "fst ?loop = None"
    by (simp add: write_workbook_result)
  obtain zs where held: "distinct zs
     \<and> list_all2 (sheet_of_year pf ?d) zs (sheets_written pf s)
     \<and> set zs \<subseteq> {y \<in> set ?ys. has_data ?d y}
     \<and> (fst ?loop = None \<longrightarrow>
          zs = first_occurrences (filter (has_data ?d) ?ys)
          \<and> log (snd (snd ?loop)) = log s @ map (year_message ?d) ?ys)"
    using sheets_written_held[of pf s] by (rule exE)
  then have zs: "list_all2 (sheet_of_year pf ?d) zs (sheets_written pf s)"
    and "fst ?loop = None \<longrightarrow> zs = first_occurrences (filter (has_data ?d) ?ys)"
    by simp_all
  with loop_ok have z: "zs = first_occurrences (filter (has_data ?d) ?ys)" by simp
  have "list_all2 (sheet_of_year pf ?d) (first_occurrences (filter (has_data ?d) ?ys))
           (sheets_written pf s)"
    using zs unfolding z .
  moreover have "workbooks (save_consolidated_file pf s) (output_path pf s) = Some (sheets_written pf s)"
    using opened closed by (simp add: workbooks_save)
  ultimately show ?thesis by simp
qed

lemma denied_platform_simps:
  "makedirs denied_platform paths d = Inl (Exception ''Permission denied'')"
  by (simp add: denied_platform_def)

lemma ex_some_path:
  "\<not> list_all (\<lambda>(path, _). path = []) (files_to_process (self ex_state))"
  by (simp add: ex_state_simps ex_files_def)

lemma ex_run_denied:
  "run denied_platform ex_state
     = (Some (Exception ''Permission denied''),
        logging INFO ''Iniciando processamento dos arquivos PCAT'' ex_state)"
  by (simp add: run_proceeds[OF ex_some_path] create_output_directory_absent ex_state_simps
      denied_platform_simps)

text \<open>
  C7, as the specification states it, fails: with file entries configured, \<^verbatim>\<open>run\<close> does
  not always go on to process the files, save and log success.  On a file system where the
  output folder is absent and cannot be made, the exception of \<^verbatim>\<open>os.makedirs\<close> leaves
  \<^verbatim>\<open>run\<close>: the only record logged is the start, no bucket received a table, no workbook was
  saved, the folder does not exist, and the success message is not logged.
\<close>

theorem run_stops_when_folder_cannot_be_made:
  "\<not> list_all (\<lambda>(path, _). path = []) (files_to_process (self ex_state))
   \<and> fst (run denied_platform ex_state) = Some (Exception ''Permission denied'')
   \<and> log (snd (run denied_platform ex_state))
       = [(INFO, ''Iniciando processamento dos arquivos PCAT'')]
   \<and> (INFO, success_message) \<notin> set (log (snd (run denied_platform ex_state)))
   \<and> data_by_year (self (snd (run denied_platform ex_state))) = empty_buckets [2019, 2020, 2021]
   \<and> workbooks (snd (run denied_platform ex_state)) = Map.empty
   \<and> output_folder (self ex_state) \<notin> fs (snd (run denied_platform ex_state))"
proof -
  have "self (snd (run denied_platform ex_state)) = self ex_state"
    and "fs (snd (run denied_platform ex_state)) = fs ex_state"
    and "workbooks (snd (run denied_platform ex_state)) = workbooks ex_state"
    and "log (snd (run denied_platform ex_state))
           = [(INFO, ''Iniciando processamento dos arquivos PCAT'')]"
    and "fst (run denied_platform ex_state) = Some (Exception ''Permission denied'')"
    by (simp_all add: ex_run_denied ex_state_simps logging_def)
  with ex_some_path show ?thesis
    by (simp add: ex_state_simps success_message_def) (simp add: ex_state_def)
qed

text \<open>
  C7, amended.  \<^verbatim>\<open>run\<close> logs that it starts.  If every configured entry has an empty path
  it logs one ERROR record and returns at once: the file system, the saved workbooks and the
  extractor are as before.  Otherwise it calls \<^verbatim>\<open>_create_output_directory\<close>.  If the output
  folder is absent and \<^verbatim>\<open>os.makedirs\<close> raises, the exception leaves \<^verbatim>\<open>run\<close> at once: no file
  is processed, nothing is saved and no success message is logged.  If the folder exists or
  is made (and the extractor's dictionary holds every configured year, as the constructor
  leaves it), the folder exists from then on; every entry of the file list is processed, so
  that each bucket gains, in list order, the tables of all the entries whose path is set,
  exists, is read without an exception and has that year as its first match; the
  consolidated workbook is saved from these buckets whatever the files gave (when the
  write completes, it holds one sheet per year with data); the message
  \<^verbatim>\<open>Processamento concluido com sucesso!\<close> (with its accent) is the last record logged, and
  \<^verbatim>\<open>run\<close> returns normally.
\<close>

theorem run_behaviour:
  "(list_all (\<lambda>(path, _). path = []) (files_to_process (self s)) \<longrightarrow>
      run pf s = (None, logging ERROR ''Nenhum arquivo configurado para processamento''
                          (logging INFO ''Iniciando processamento dos arquivos PCAT'' s))
      \<and> fs (snd (run pf s)) = fs s
      \<and> workbooks (snd (run pf s)) = workbooks s
      \<and> self (snd (run pf s)) = self s)
   \<and> (\<not> list_all (\<lambda>(path, _). path = []) (files_to_process (self s))
       \<and> output_folder (self s) \<notin> fs s
       \<and> makedirs pf (fs s) (output_folder (self s)) = Inl e \<longrightarrow>
      run pf s = (Some e, logging INFO ''Iniciando processamento dos arquivos PCAT'' s))
   \<and> (\<not> list_all (\<lambda>(path, _). path = []) (files_to_process (self s)) \<and> keyed s
       \<and> (output_folder (self s) \<in> fs s
            \<or> (\<exists>made. makedirs pf (fs s) (output_folder (self s)) = Inr made)) \<longrightarrow>
      (\<exists>s1 s2.
          create_output_directory pf
              (logging INFO ''Iniciando processamento dos arquivos PCAT'' s) = (None, s1)
        \<and> fs s \<subseteq> fs s1
        \<and> output_folder (self s) \<in> fs s1
        \<and> process_files pf s1 = (None, s2)
        \<and> (\<forall>y. data_by_year (self s2) y
                = map_option
                    (\<lambda>b. b @ tables_for pf (config (self s)) (fs s1) (files_to_process (self s)) y)
                    (data_by_year (self s) y))
        \<and> config (self s2) = config (self s)
        \<and> output_folder (self s2) = output_folder (self s)
        \<and> fs s2 = fs s1
        \<and> workbooks s2 = workbooks s
        \<and> run pf s = (None, logging INFO success_message (save_consolidated_file pf s2))
        \<and> self (snd (run pf s)) = self s2
        \<and> (fst (write_workbook pf (output_path pf s2) s2) = None \<longrightarrow>
             list_all2 (sheet_of_year pf (data_by_year (self s2)))
               (first_occurrences
                  (filter (has_data (data_by_year (self s2))) (years (config (self s)))))
               (sheets_written pf s2)
             \<and> workbooks (snd (run pf s)) (output_path pf s) = Some (sheets_written pf s2)))
      \<and> fst (run pf s) = None
      \<and> last (log (snd (run pf s))) = (INFO, success_message)
      \<and> output_folder (self s) \<in> fs (snd (run pf s)))"
proof -
  let ?start = "logging INFO ''Iniciando processamento dos arquivos PCAT'' s"
  have guard: "run pf s = (None, logging ERROR ''Nenhum arquivo configurado para processamento'' ?start)
      \<and> fs (snd (run pf s)) = fs s
      \<and> workbooks (snd (run pf s)) = workbooks s
      \<and> self (snd (run pf s)) = self s"
    if "list_all (\<lambda>(path, _). path = []) (files_to_process (self s))"
    using run_guard[OF that, of pf] by simp
  have raises: "run pf s = (Some e, ?start)"
    if some: "\<not> list_all (\<lambda>(path, _). path = []) (files_to_process (self s))"
      and absent: "output_folder (self s) \<notin> fs s"
      and denied: "makedirs pf (fs s) (output_folder (self s)) = Inl e"
  proof -
    have "create_output_directory pf ?start = (Some e, ?start)"
      using absent denied by (simp add: create_output_directory_absent)
    with run_proceeds[OF some, of pf] show ?thesis by simp
  qed
  have proceeds: "(\<exists>s1 s2.
          create_output_directory pf ?start = (None, s1)
        \<and> fs s \<subseteq> fs s1
        \<and> output_folder (self s) \<in> fs s1
        \<and> process_files pf s1 = (None, s2)
        \<and> (\<forall>y. data_by_year (self s2) y
                = map_option
                    (\<lambda>b. b @ tables_for pf (config (self s)) (fs s1) (files_to_process (self s)) y)
                    (data_by_year (self s) y))
        \<and> config (self s2) = config (self s)
        \<and> output_folder (self s2) = output_folder (self s)
        \<and> fs s2 = fs s1
        \<and> workbooks s2 = workbooks s
        \<and> run pf s = (None, logging INFO success_message (save_consolidated_file pf s2))
        \<and> self (snd (run pf s)) = self s2
        \<and> (fst (write_workbook pf (output_path pf s2) s2) = None \<longrightarrow>
             list_all2 (sheet_of_year pf (data_by_year (self s2)))
               (first_occurrences
                  (filter (has_data (data_by_year (self s2))) (years (config (self s)))))
               (sheets_written pf s2)
             \<and> workbooks (snd (run pf s)) (output_path pf s) = Some (sheets_written pf s2)))
      \<and> fst (run pf s) = None
      \<and> last (log (snd (run pf s))) = (INFO, success_message)
      \<and> output_folder (self s) \<in> fs (snd (run pf s))"
    if some: "\<not> list_all (\<lambda>(path, _). path = []) (files_to_process (self s))"
      and k: "keyed s"
      and dir: "output_folder (self s) \<in> fs s
                 \<or> (\<exists>made. makedirs pf (fs s) (output_folder (self s)) = Inr made)"
  proof -
    have "\<exists>s1. create_output_directory pf ?start = (None, s1)"
    proof (cases "output_folder (self s) \<in> fs s")
      case True
      then show ?thesis by (simp add: create_output_directory_there)
    next
      case False
      with dir obtain made where "makedirs pf (fs s) (output_folder (self s)) = Inr made"
        by blast
      with False show ?thesis by (simp add: create_output_directory_absent)
    qed
    then obtain s1 where c: "create_output_directory pf ?start = (None, s1)" by blast
    from create_output_directory_returns[OF c]
    have s1: "self s1 = self s" "workbooks s1 = workbooks s" "fs s \<subseteq> fs s1"
      "output_folder (self s) \<in> fs s1"
      by simp_all
    from k s1(1) have k1: "keyed s1" by (simp add: keyed_def)
    from process_files_buckets[OF k1, of pf] obtain s2 where
      p: "process_files pf s1 = (None, s2)"
      and d: "\<forall>y. data_by_year (self s2) y
            = map_option (\<lambda>b. b @ tables_for pf (config (self s1)) (fs s1) (files_to_process (self s1)) y)
                (data_by_year (self s1) y)"
      and f: "config (self s2) = config (self s1)" "output_folder (self s2) = output_folder (self s1)"
        "fs s2 = fs s1" "workbooks s2 = workbooks s1"
      by blast
    from run_proceeds[OF some, of pf] c p
    have run: "run pf s = (None, logging INFO success_message (save_consolidated_file pf s2))"
      by simp
    have out: "output_path pf s2 = output_path pf s"
      using f(2) s1(1) by (simp add: output_path_def)
    have self: "self (snd (run pf s)) = self s2"
      unfolding run by (simp add: save_self)
    have sheets: "list_all2 (sheet_of_year pf (data_by_year (self s2)))
               (first_occurrences
                  (filter (has_data (data_by_year (self s2))) (years (config (self s)))))
               (sheets_written pf s2)
             \<and> workbooks (snd (run pf s)) (output_path pf s) = Some (sheets_written pf s2)"
      if "fst (write_workbook pf (output_path pf s2) s2) = None"
      using save_completed[OF that] f(1) s1(1) out unfolding run by simp
    have dirend: "output_folder (self s) \<in> fs (snd (run pf s))"
      unfolding run using s1(4) f(3) by (simp add: fs_save)
    have lastlog: "last (log (snd (run pf s))) = (INFO, success_message)"
      unfolding run by (simp add: logging_def)
    from c s1 p d f run self sheets dirend lastlog show ?thesis
      by (intro conjI exI[of _ s1] exI[of _ s2]) simp_all
  qed
  from guard raises proceeds show ?thesis by blast
qed

lemma ex_first_years:
  "first_matching_year ''a_2020.xlsx'' [2019, 2020, 2021] = Some 2020"
  "first_matching_year ''b_2020.xlsx'' [2019, 2020, 2021] = Some 2020"
  "first_matching_year ''bad_2020.xlsx'' [2019, 2020, 2021] = Some 2020"
  "first_matching_year ''noyear.xlsx'' [2019, 2020, 2021] = None"
  by (simp_all add: first_matching_year_def ex_str_int)

lemma ex_read_bad_config:
  "read_and_tag ex_platform ex_config (''bad_2020.xlsx'', ''B'')
     = Inl (Exception ''Worksheet named EFEITO not found'')"
  using ex_read_bad by (simp add: ex_state_simps)

text \<open>
  The tables of the example file list, year by year: the two workbooks of 2020 that can be
  read, in list order; nothing from the unset entry, the missing file, the workbook without
  the sheet, or the workbook whose name has no year.
\<close>

lemma ex_tables_for:
  "tables_for ex_platform ex_config
      {''/work/resultados_efeito'', ''a_2020.xlsx'', ''bad_2020.xlsx'', ''noyear.xlsx'', ''b_2020.xlsx''}
      ex_files y =
     (if y = 2020 then [ex_table ''a_2020.xlsx'' ''A'', ex_table ''b_2020.xlsx'' ''B2''] else [])"
  by (simp add: tables_for_def ex_files_def filed_cases ex_first_years ex_read_bad_config
      ex_read_table[OF ex_open_workbook(1)] ex_read_table[OF ex_open_workbook(2)]
      ex_read_table[OF ex_open_workbook(3)])

lemma ex_created:
  "create_output_directory ex_platform
       (logging INFO ''Iniciando processamento dos arquivos PCAT'' ex_state)
   = (None, logging INFO (''Diret'' @ [CHR 0xF3] @ ''rio criado: /work/resultados_efeito'')
              ((logging INFO ''Iniciando processamento dos arquivos PCAT'' ex_state)
                 \<lparr>fs := insert ''/work/resultados_efeito'' (fs ex_state)\<rparr>))"
  by (simp add: create_output_directory_absent ex_state_simps ex_platform_simps)

lemma ex_save_loop_two:
  "data_by_year (self s) = (empty_buckets [2019, 2020, 2021])
      (2020 \<mapsto> [ex_table ''a_2020.xlsx'' ''A'', ex_table ''b_2020.xlsx'' ''B2'']) \<Longrightarrow>
   fst (save_loop ex_platform [2019, 2020, 2021] [] s) = None
   \<and> fst (snd (save_loop ex_platform [2019, 2020, 2021] [] s)) =
       [(''2020'',
         [[Text ''Arquivo_Origem'', Text ''Caminho_Arquivo'', Text ''A'', Text ''B''],
          [Text ''A'', Text ''a_2020.xlsx'', Number 1, Number 2],
          [Text ''B2'', Text ''b_2020.xlsx'', Number 1, Number 2]])]"
  by (simp add: empty_buckets_def ex_platform_simps ex_concat_def ex_str_int
      ex_grid_2020 put_sheet_def)

theorem run_behaviour_witness:
  "fst (run ex_platform ex_state) = None
   \<and> last (log (snd (run ex_platform ex_state))) = (INFO, success_message)
   \<and> ''/work/resultados_efeito'' \<in> fs (snd (run ex_platform ex_state))
   \<and> data_by_year (self (snd (run ex_platform ex_state))) =
       (empty_buckets [2019, 2020, 2021])
         (2020 \<mapsto> [ex_table ''a_2020.xlsx'' ''A'', ex_table ''b_2020.xlsx'' ''B2''])
   \<and> workbooks (snd (run ex_platform ex_state))
        ''/work/resultados_efeito/PCAT_Efeito_Consolidado.xlsx'' =
       Some [(''2020'',
         [[Text ''Arquivo_Origem'', Text ''Caminho_Arquivo'', Text ''A'', Text ''B''],
          [Text ''A'', Text ''a_2020.xlsx'', Number 1, Number 2],
          [Text ''B2'', Text ''b_2020.xlsx'', Number 1, Number 2]])]
   \<and> run ex_platform (ex_state\<lparr>self := ex_extractor\<lparr>files_to_process := [([], ''unset'')]\<rparr>\<rparr>)
       = (None, logging ERROR ''Nenhum arquivo configurado para processamento''
                  (logging INFO ''Iniciando processamento dos arquivos PCAT''
                     (ex_state\<lparr>self := ex_extractor\<lparr>files_to_process := [([], ''unset'')]\<rparr>\<rparr>)))
   \<and> run denied_platform ex_state
       = (Some (Exception ''Permission denied''),
          logging INFO ''Iniciando processamento dos arquivos PCAT'' ex_state)"
proof -
  let ?two = "[ex_table ''a_2020.xlsx'' ''A'', ex_table ''b_2020.xlsx'' ''B2'']"
  let ?out = "''/work/resultados_efeito/PCAT_Efeito_Consolidado.xlsx''"
  have made: "\<not> list_all (\<lambda>(path, _). path = []) (files_to_process (self ex_state))
       \<and> keyed ex_state
       \<and> (output_folder (self ex_state) \<in> fs ex_state
            \<or> (\<exists>made. makedirs ex_platform (fs ex_state) (output_folder (self ex_state)) = Inr made))"
    using ex_some_path ex_keyed by (simp add: ex_platform_simps)
  note proceeds = run_behaviour [where s = ex_state and pf = ex_platform,
      THEN conjunct2, THEN conjunct2, THEN mp, OF made]
  from proceeds [THEN conjunct1] obtain s1 s2 where
    c: "create_output_directory ex_platform
              (logging INFO ''Iniciando processamento dos arquivos PCAT'' ex_state) = (None, s1)"
    and d: "\<forall>y. data_by_year (self s2) y
                = map_option
                    (\<lambda>b. b @ tables_for ex_platform (config (self ex_state)) (fs s1)
                               (files_to_process (self ex_state)) y)
                    (data_by_year (self ex_state) y)"
    and cfg: "config (self s2) = config (self ex_state)"
    and folder: "output_folder (self s2) = output_folder (self ex_state)"
    and fs2: "fs s2 = fs s1"
    and self: "self (snd (run ex_platform ex_state)) = self s2"
    and sheets: "fst (write_workbook ex_platform (output_path ex_platform s2) s2) = None \<longrightarrow>
             list_all2 (sheet_of_year ex_platform (data_by_year (self s2)))
               (first_occurrences
                  (filter (has_data (data_by_year (self s2))) (years (config (self ex_state)))))
               (sheets_written ex_platform s2)
             \<and> workbooks (snd (run ex_platform ex_state)) (output_path ex_platform ex_state)
                 = Some (sheets_written ex_platform s2)"
    by (elim exE conjE) simp
  from proceeds have ends: "fst (run ex_platform ex_state) = None"
    "last (log (snd (run ex_platform ex_state))) = (INFO, success_message)"
    "output_folder (self ex_state) \<in> fs (snd (run ex_platform ex_state))"
    by simp_all
  from c have paths: "fs s1 = {''/work/resultados_efeito'', ''a_2020.xlsx'', ''bad_2020.xlsx'',
      ''noyear.xlsx'', ''b_2020.xlsx''}"
    by (auto simp add: ex_created ex_state_simps)
  have buckets: "data_by_year (self s2) = (empty_buckets [2019, 2020, 2021])(2020 \<mapsto> ?two)"
  proof (rule ext)
    fix y
    from d have "data_by_year (self s2) y
                = map_option
                    (\<lambda>b. b @ tables_for ex_platform (config (self ex_state)) (fs s1)
                               (files_to_process (self ex_state)) y)
                    (data_by_year (self ex_state) y)"
      by (rule spec)
    then show "data_by_year (self s2) y = ((empty_buckets [2019, 2020, 2021])(2020 \<mapsto> ?two)) y"
      unfolding paths by (simp add: ex_state_simps ex_tables_for empty_buckets_def)
  qed
  have out: "output_path ex_platform s2 = ?out" "output_path ex_platform ex_state = ?out"
    using folder by (simp_all add: output_path_def ex_state_simps) (simp_all add: ex_platform_def)
  have years: "years (config (self s2)) = [2019, 2020, 2021]"
    using cfg by (simp add: ex_state_simps)
  have loop: "fst (save_loop ex_platform (years (config (self s2))) []
                 (s2\<lparr>fs := insert (output_path ex_platform s2) (fs s2)\<rparr>)) = None"
    and written: "sheets_written ex_platform s2 =
       [(''2020'',
         [[Text ''Arquivo_Origem'', Text ''Caminho_Arquivo'', Text ''A'', Text ''B''],
          [Text ''A'', Text ''a_2020.xlsx'', Number 1, Number 2],
          [Text ''B2'', Text ''b_2020.xlsx'', Number 1, Number 2]])]"
    unfolding sheets_written_def years
    using ex_save_loop_two[of "s2\<lparr>fs := insert (output_path ex_platform s2) (fs s2)\<rparr>"] buckets
    by simp_all
  have ok: "fst (write_workbook ex_platform (output_path ex_platform s2) s2) = None"
    using loop written by (simp add: write_workbook_result ex_platform_simps fs2 paths)
  with sheets have saved: "workbooks (snd (run ex_platform ex_state)) ?out
      = Some (sheets_written ex_platform s2)"
    by (simp add: out)
  have g: "list_all (\<lambda>(path, _). path = [])
             (files_to_process (self (ex_state\<lparr>self := ex_extractor\<lparr>files_to_process := [([], ''unset'')]\<rparr>\<rparr>)))"
    by simp
  from run_behaviour [where s = "ex_state\<lparr>self := ex_extractor\<lparr>files_to_process := [([], ''unset'')]\<rparr>\<rparr>"
      and pf = ex_platform, THEN conjunct1, THEN mp, OF g]
  have guard: "run ex_platform (ex_state\<lparr>self := ex_extractor\<lparr>files_to_process := [([], ''unset'')]\<rparr>\<rparr>)
       = (None, logging ERROR ''Nenhum arquivo configurado para processamento''
                  (logging INFO ''Iniciando processamento dos arquivos PCAT''
                     (ex_state\<lparr>self := ex_extractor\<lparr>files_to_process := [([], ''unset'')]\<rparr>\<rparr>)))"
    by (rule conjunct1)
  have den: "\<not> list_all (\<lambda>(path, _). path = []) (files_to_process (self ex_state))
       \<and> output_folder (self ex_state) \<notin> fs ex_state
       \<and> makedirs denied_platform (fs ex_state) (output_folder (self ex_state))
           = Inl (Exception ''Permission denied'')"
    using ex_some_path by (simp add: denied_platform_simps ex_state_simps)
  note raised = run_behaviour [where s = ex_state and pf = denied_platform
      and e = "Exception ''Permission denied''",
      THEN conjunct2, THEN conjunct1, THEN mp, OF den]
  from ends self buckets saved written guard raised show ?thesis
    by (simp add: ex_state_simps)
qed

subsection \<open>Who creates the output folder\<close>

text \<open>
  C9, as the specification states it, fails: \<^verbatim>\<open>save_consolidated_file\<close> creates no
  directory.  Called on a file system without the output folder, it leaves the file system
  as it was, the folder still absent.
\<close>

theorem save_does_not_create_folder:
  "output_folder (self ex_state) \<notin> fs ex_state
   \<and> output_folder (self ex_state) \<notin> fs (save_consolidated_file ex_platform ex_state)
   \<and> fs (save_consolidated_file ex_platform ex_state) = fs ex_state"
  by (simp add: fs_save ex_platform_simps ex_state_simps)

text \<open>
  C9, amended.  The output folder is created by \<^verbatim>\<open>_create_output_directory\<close>, which
  \<^verbatim>\<open>run\<close> calls before it processes the files and before it saves.  If the folder already
  exists, the call changes nothing and logs nothing (no error).  If it does not,
  \<^verbatim>\<open>os.makedirs\<close> is called: when that raises, the exception leaves the method with the
  state as it was; when it returns, the folder (with whatever intermediate directories were
  made) is added to the file system and one INFO record is logged.  So whenever the call
  returns normally, the folder exists afterwards.  \<^verbatim>\<open>save_consolidated_file\<close> itself
  creates no folder: the only path it can add to the file system is the output workbook's
  own, so a folder absent before the save is absent after it; and when the writer cannot be
  opened, the method logs that error and changes nothing else.  In \<^verbatim>\<open>run\<close>, an exception of
  the folder creation ends the run before any file is processed, and whenever the save is
  reached the folder exists.
\<close>

theorem output_folder_created_by_run:
  "(output_folder (self s) \<in> fs s \<longrightarrow> create_output_directory pf s = (None, s))
   \<and> (output_folder (self s) \<notin> fs s \<longrightarrow>
        create_output_directory pf s =
          (case makedirs pf (fs s) (output_folder (self s)) of
             Inl e \<Rightarrow> (Some e, s)
           | Inr made \<Rightarrow>
              (None, logging INFO (''Diret'' @ [CHR 0xF3] @ ''rio criado: '' @ output_folder (self s))
                       (s\<lparr>fs := insert (output_folder (self s)) (fs s \<union> made)\<rparr>))))
   \<and> (fst (create_output_directory pf s) = None \<longrightarrow>
        output_folder (self s) \<in> fs (snd (create_output_directory pf s)))
   \<and> fs (save_consolidated_file pf s) \<subseteq> insert (output_path pf s) (fs s)
   \<and> (output_folder (self s) \<notin> fs s \<and> output_path pf s \<noteq> output_folder (self s) \<longrightarrow>
        output_folder (self s) \<notin> fs (save_consolidated_file pf s))
   \<and> (ExcelWriter pf (fs s) (output_path pf s) = Some e \<longrightarrow>
        save_consolidated_file pf s
          = logging ERROR (''Erro ao salvar arquivo consolidado: '' @ str_exn e) s)
   \<and> (\<not> list_all (\<lambda>(path, _). path = []) (files_to_process (self s)) \<longrightarrow>
        run pf s =
          (case create_output_directory pf
                  (logging INFO ''Iniciando processamento dos arquivos PCAT'' s) of
             (Some e, s1) \<Rightarrow> (Some e, s1)
           | (None, s1) \<Rightarrow>
              (case process_files pf s1 of
                 (Some e, s2) \<Rightarrow> (Some e, s2)
               | (None, s2) \<Rightarrow> (None, logging INFO success_message (save_consolidated_file pf s2))))
        \<and> (\<forall>s1. create_output_directory pf
                    (logging INFO ''Iniciando processamento dos arquivos PCAT'' s) = (None, s1)
               \<longrightarrow> output_folder (self s) \<in> fs (snd (process_files pf s1))))"
proof -
  have c1: "create_output_directory pf s = (None, s)" if "output_folder (self s) \<in> fs s"
    using that by (rule create_output_directory_there)
  have c2: "create_output_directory pf s =
          (case makedirs pf (fs s) (output_folder (self s)) of
             Inl e \<Rightarrow> (Some e, s)
           | Inr made \<Rightarrow>
              (None, logging INFO (''Diret'' @ [CHR 0xF3] @ ''rio criado: '' @ output_folder (self s))
                       (s\<lparr>fs := insert (output_folder (self s)) (fs s \<union> made)\<rparr>)))"
    if "output_folder (self s) \<notin> fs s"
    using that by (rule create_output_directory_absent)
  have c3: "output_folder (self s) \<in> fs (snd (create_output_directory pf s))"
    if "fst (create_output_directory pf s) = None"
  proof -
    from that obtain s1 where c: "create_output_directory pf s = (None, s1)"
      by (cases "create_output_directory pf s") auto
    from create_output_directory_returns[OF c] c show ?thesis by simp
  qed
  have c4: "fs (save_consolidated_file pf s) \<subseteq> insert (output_path pf s) (fs s)"
    by (auto simp add: fs_save)
  have c5: "output_folder (self s) \<notin> fs (save_consolidated_file pf s)"
    if "output_folder (self s) \<notin> fs s" "output_path pf s \<noteq> output_folder (self s)"
    using that c4 by auto
  have c6: "save_consolidated_file pf s
          = logging ERROR (''Erro ao salvar arquivo consolidado: '' @ str_exn e) s"
    if "ExcelWriter pf (fs s) (output_path pf s) = Some e"
    using that by (simp add: save_consolidated_file_alt write_workbook_result)
  have c7: "output_folder (self s) \<in> fs (snd (process_files pf s1))"
    if c: "create_output_directory pf
             (logging INFO ''Iniciando processamento dos arquivos PCAT'' s) = (None, s1)" for s1
  proof -
    from create_output_directory_returns[OF c] have "output_folder (self s) \<in> fs s1" by simp
    with process_files_loop_frame[of pf "files_to_process (self s1)" s1]
    show ?thesis by (simp add: process_files_def)
  qed
  from c1 c2 c3 c4 c5 c6 c7 run_proceeds[of s pf] show ?thesis by blast
qed

lemma ex_filled_there: "output_folder (self ex_filled) \<in> fs ex_filled"
  by (simp add: ex_filled_simps)

theorem output_folder_created_by_run_witness:
  "''/work/resultados_efeito'' \<notin> fs ex_state
   \<and> create_output_directory ex_platform ex_state
       = (None, logging INFO (''Diret'' @ [CHR 0xF3] @ ''rio criado: /work/resultados_efeito'')
                  (ex_state\<lparr>fs := insert ''/work/resultados_efeito'' (fs ex_state)\<rparr>))
   \<and> ''/work/resultados_efeito'' \<in> fs (snd (create_output_directory ex_platform ex_state))
   \<and> create_output_directory denied_platform ex_state
       = (Some (Exception ''Permission denied''), ex_state)
   \<and> create_output_directory ex_platform ex_filled = (None, ex_filled)
   \<and> ''/work/resultados_efeito'' \<notin> fs (save_consolidated_file ex_platform ex_state)
   \<and> save_consolidated_file ex_platform ex_state
       = logging ERROR ''Erro ao salvar arquivo consolidado: Cannot save file into a non-existent directory''
           ex_state
   \<and> ''/work/resultados_efeito'' \<in> fs (snd (process_files ex_platform
        (logging INFO (''Diret'' @ [CHR 0xF3] @ ''rio criado: /work/resultados_efeito'')
           ((logging INFO ''Iniciando processamento dos arquivos PCAT'' ex_state)
              \<lparr>fs := insert ''/work/resultados_efeito'' (fs ex_state)\<rparr>))))"
proof -
  have absent: "output_folder (self ex_state) \<notin> fs ex_state"
    by (simp add: ex_state_simps)
  have other: "output_folder (self ex_state) \<notin> fs ex_state
     \<and> output_path ex_platform ex_state \<noteq> output_folder (self ex_state)"
    by (simp add: ex_state_simps output_path_def) (simp add: ex_platform_def)
  have closed: "ExcelWriter ex_platform (fs ex_state) (output_path ex_platform ex_state)
      = Some (Exception ''Cannot save file into a non-existent directory'')"
    by (simp add: ex_platform_simps ex_state_simps)
  note good = output_folder_created_by_run [where s = ex_state and pf = ex_platform
      and e = "Exception ''Cannot save file into a non-existent directory''"]
  note bad = output_folder_created_by_run [where s = ex_state and pf = denied_platform
      and e = "Exception ''Permission denied''"]
  note filled = output_folder_created_by_run [where s = ex_filled and pf = ex_platform
      and e = "Exception ''Permission denied''"]
  from good [THEN conjunct2, THEN conjunct1, THEN mp, OF absent]
  have a: "create_output_directory ex_platform ex_state
       = (None, logging INFO (''Diret'' @ [CHR 0xF3] @ ''rio criado: /work/resultados_efeito'')
                  (ex_state\<lparr>fs := insert ''/work/resultados_efeito'' (fs ex_state)\<rparr>))"
    by (simp add: ex_platform_simps ex_state_simps)
  then have created: "fst (create_output_directory ex_platform ex_state) = None" by simp
  note b = good [THEN conjunct2, THEN conjunct2, THEN conjunct1, THEN mp, OF created]
  note c = good [THEN conjunct2, THEN conjunct2, THEN conjunct2, THEN conjunct2, THEN conjunct1,
      THEN mp, OF other]
  note d = good [THEN conjunct2, THEN conjunct2, THEN conjunct2, THEN conjunct2, THEN conjunct2,
      THEN conjunct1, THEN mp, OF closed]
  note r = good [THEN conjunct2, THEN conjunct2, THEN conjunct2, THEN conjunct2, THEN conjunct2,
      THEN conjunct2, THEN mp, OF ex_some_path, THEN conjunct2, THEN spec, THEN mp, OF ex_created]
  from bad [THEN conjunct2, THEN conjunct1, THEN mp, OF absent]
  have f: "create_output_directory denied_platform ex_state
       = (Some (Exception ''Permission denied''), ex_state)"
    by (simp add: denied_platform_simps)
  note g = filled [THEN conjunct1, THEN mp, OF ex_filled_there]
  from absent a b c d r f g show ?thesis by (simp add: ex_state_simps)
qed

subsection \<open>The extractor as constructed\<close>

lemma constructor_keyed:
  "keyed \<lparr>self = PCATEffectExtractor pf cfg, fs = paths, log = l, workbooks = w\<rparr>"
  by (simp add: keyed_def PCATEffectExtractor_def empty_buckets_def list_all_iff)

lemma hardcoded_files_some_path:
  "\<not> list_all (\<lambda>(path, _). path = []) hardcoded_files"
  by (simp add: hardcoded_files_def pcats_dir_def)

text \<open>
  From the constructed extractor \<^verbatim>\<open>process_files\<close> raises nothing, so the main block
  reaches its \<^verbatim>\<open>except\<close> branch only through the folder creation: \<^verbatim>\<open>run\<close> returns normally
  unless the folder is absent and \<^verbatim>\<open>os.makedirs\<close> raises, and then the one CRITICAL record
  is logged.
\<close>

lemma main_outcome:
  "main pf fs0 =
     (if path_join pf (getcwd pf) ''resultados_efeito'' \<notin> fs0
         \<and> isl (makedirs pf fs0 (path_join pf (getcwd pf) ''resultados_efeito''))
      then logging CRITICAL
             (''Erro fatal na execu'' @ [CHR 0xE7, CHR 0xE3] @ ''o do programa: ''
                @ str_exn (projl (makedirs pf fs0 (path_join pf (getcwd pf) ''resultados_efeito''))))
             (logging INFO ''Iniciando processamento dos arquivos PCAT''
                \<lparr>self = PCATEffectExtractor pf default_config, fs = fs0, log = [],
                  workbooks = Map.empty\<rparr>)
      else snd (run pf \<lparr>self = PCATEffectExtractor pf default_config, fs = fs0, log = [],
                        workbooks = Map.empty\<rparr>))"
proof -
  let ?s = "\<lparr>self = PCATEffectExtractor pf default_config, fs = fs0, log = [],
             workbooks = Map.empty\<rparr>"
  let ?start = "logging INFO ''Iniciando processamento dos arquivos PCAT'' ?s"
  let ?d = "path_join pf (getcwd pf) ''resultados_efeito''"
  have some: "\<not> list_all (\<lambda>(path, _). path = []) (files_to_process (self ?s))"
    using hardcoded_files_some_path by (simp add: PCATEffectExtractor_def)
  have folder: "output_folder (self ?start) = ?d" "fs ?start = fs0"
    by (simp_all add: PCATEffectExtractor_def)
  have k: "keyed ?s" by (rule constructor_keyed)
  show ?thesis
  proof (cases "?d \<notin> fs0 \<and> isl (makedirs pf fs0 ?d)")
    case True
    then obtain e where e: "makedirs pf fs0 ?d = Inl e" by (cases "makedirs pf fs0 ?d") auto
    with True folder have "create_output_directory pf ?start = (Some e, ?start)"
      by (simp add: create_output_directory_absent)
    with run_proceeds[OF some, of pf] have "run pf ?s = (Some e, ?start)" by simp
    with True e show ?thesis by (simp add: main_def)
  next
    case False
    have "\<exists>s1. create_output_directory pf ?start = (None, s1)"
    proof (cases "?d \<in> fs0")
      case True
      with folder show ?thesis by (simp add: create_output_directory_there)
    next
      case absent: False
      with False obtain made where "makedirs pf fs0 ?d = Inr made"
        by (cases "makedirs pf fs0 ?d") auto
      with absent folder show ?thesis by (simp add: create_output_directory_absent)
    qed
    then obtain s1 where c: "create_output_directory pf ?start = (None, s1)" by blast
    from create_output_directory_returns[OF c] have "self s1 = self ?s" by simp
    with k have "keyed s1" by (simp add: keyed_def)
    from process_files_buckets[OF this, of pf] obtain s2 where
      "process_files pf s1 = (None, s2)" by blast
    with run_proceeds[OF some, of pf] c have "fst (run pf ?s) = None" by simp
    then obtain s' where r: "run pf ?s = (None, s')" by (cases "run pf ?s") auto
    then have "main pf fs0 = snd (run pf ?s)" by (simp add: main_def)
    with False show ?thesis by (simp only: if_False)
  qed
qed

end
